theory Spec2Isabelle
  imports Main "HOL-Library.Word"
begin

section \<open>Machine types\<close>

text \<open>
  The library is written for an LP64 target: \<open>size_t\<close> and \<open>uint64_t\<close> are 64-bit unsigned
  words, the handles \<open>cr_object\<close>, \<open>cr_mesh\<close>, \<open>cr_instance\<close>, \<open>cr_camera\<close>, ... are
  \<open>int64_t\<close> (the same 64 bits, read signed by \<open>sint\<close>), \<open>int\<close> is a 32-bit word.
  A \<open>float\<close> and a \<open>double\<close> are carried as their 32 and 64 bit patterns: the arithmetic on
  them belongs to the math library and to the C conversions, which enter as parameters, and
  \<open>memcmp\<close> on floats is equality of the patterns. A pointer to an object this file never
  looks into is kept as an address.
\<close>

type_synonym size_t = "64 word"
type_synonym int64_t = "64 word"
type_synonym cint = "32 word"
type_synonym cfloat = "32 word"
type_synonym cdouble = "64 word"
type_synonym pointer = nat

text \<open>
  What C leaves undefined or aborts on is a value of the model: an array element addressed
  outside its array, and a failed \<open>ASSERT\<close>.
\<close>

datatype fault = OutOfBounds | AssertionFailed

type_synonym 'a res = "fault + 'a"

subsection \<open>Growable arrays\<close>

text \<open>
  The arrays \<open>T_arr\<close> (items, count) are lists; \<open>count\<close> is the list's length as a
  \<open>size_t\<close>. The macro that generates \<open>T_arr_add\<close> is not among the sources; its use in
  \<open>c-ray.c\<close> (the value it returns is handed out as the handle of the element just added)
  fixes what is modelled: the element goes to the end and the previous count is returned.
\<close>

definition arr_count :: "'a list \<Rightarrow> size_t" where
  "arr_count xs = of_nat (length xs)"

definition arr_add :: "'a list \<Rightarrow> 'a \<Rightarrow> int64_t \<times> 'a list" where
  "arr_add xs v = (arr_count xs, xs @ [v])"

text \<open>The guard \<open>if ((size_t)i > arr.count - 1) return\<close>: unsigned, and wrapping at count 0.\<close>

definition idx_rejected :: "int64_t \<Rightarrow> 'a list \<Rightarrow> bool" where
  "idx_rejected i xs \<longleftrightarrow> i > arr_count xs - 1"

text \<open>The access \<open>arr.items[i]\<close> that follows the guard.\<close>

definition in_bounds :: "64 word \<Rightarrow> 'a list \<Rightarrow> bool" where
  "in_bounds i xs \<longleftrightarrow> unat i < length xs"

text \<open>
  A pointer with an element count, as the bind calls receive it: \<open>None\<close> is \<open>NULL\<close>. The loop
  \<open>if (p && n) for (i = 0; i < n; ++i) add(p[i])\<close> yields the first \<open>n\<close> elements, and reads
  outside the caller's array when \<open>n\<close> exceeds it.
\<close>

definition read_n :: "'a list option \<Rightarrow> size_t \<Rightarrow> 'a list res" where
  "read_n p n =
     (case p of
        None \<Rightarrow> Inr []
      | Some arr \<Rightarrow>
          if n = 0 then Inr []
          else if unat n \<le> length arr then Inr (take (unat n) arr)
          else Inl OutOfBounds)"

section \<open>The scene\<close>

type_synonym vector = "cfloat \<times> cfloat \<times> cfloat"
type_synonym coord = "cfloat \<times> cfloat"
type_synonym euler_angles = "cfloat \<times> cfloat \<times> cfloat"

type_synonym row4 = "cfloat \<times> cfloat \<times> cfloat \<times> cfloat"
type_synonym float4x4 = "row4 \<times> row4 \<times> row4 \<times> row4"
type_synonym matrix4x4 = "row4 \<times> row4 \<times> row4 \<times> row4"

record transform =
  A :: matrix4x4
  Ainv :: matrix4x4

text \<open>\<open>struct cr_face\<close>; \<open>struct poly\<close> is the same bytes (the code casts one to the other).\<close>

record cr_face =
  vertex_idx :: "cint \<times> cint \<times> cint"
  normal_idx :: "cint \<times> cint \<times> cint"
  texture_idx :: "cint \<times> cint \<times> cint"
  mat_idx :: "16 word"
  has_normals :: bool

type_synonym poly = cr_face

record vertex_buffer =
  vertices :: "vector list"
  normals :: "vector list"
  texture_coords :: "coord list"

record cr_vertex_buf_param =
  vertices :: "vector list option"
  vertex_count :: size_t
  normals :: "vector list option"
  normal_count :: size_t
  tex_coords :: "coord list option"
  tex_coord_count :: size_t

text \<open>A mesh owns a nullable pointer to its BVH; the index itself is opaque here.\<close>

record mesh =
  name :: "string option"
  vbuf :: vertex_buffer
  polygons :: "poly list"
  bvh :: "pointer option"

record sphere =
  radius :: cfloat

datatype cr_object_type = cr_object_mesh | cr_object_sphere | cr_object_type_other nat

text \<open>
  \<open>struct instance\<close> (here \<open>inst\<close>: the C name is a keyword of the prover) is declared
  outside the sources. \<open>c-ray.c\<close> uses its \<open>composite\<close>
  transform and its \<open>bbuf_idx\<close>; the reference to the object (index and kind) is taken from
  the specification's data model.
\<close>

record inst =
  composite :: transform
  bbuf_idx :: size_t
  object_idx :: int64_t
  object_kind :: cr_object_type

record camera =
  FOV :: cfloat
  focus_distance :: cfloat
  fstops :: cfloat
  width :: cint
  height :: cint
  look_at :: vector
  forward :: vector
  right :: vector
  up :: vector
  is_blender :: bool
  position :: vector
  orientation :: euler_angles
  time :: cfloat

text \<open>A material set: the built BSDF nodes and the descriptions they were built from.\<close>

record bsdf_buffer =
  bsdfs :: "pointer option list"
  descriptions :: "pointer option list"

record bvh_build_task_arg =
  bt_mesh :: mesh
  mesh_idx :: size_t

text \<open>
  \<open>struct world\<close> is declared outside the sources; these are the fields \<open>c-ray.c\<close> touches.
  \<open>topLevel\<close>, the one scene-wide index the specification's data model names, is added so
  that "no rebuild" can be said. \<open>bg_worker\<close> is the push-only queue of BVH builds. The
  locks are not state of the model: every function is run on its own.
\<close>

record world =
  meshes :: "mesh list"
  spheres :: "sphere list"
  instances :: "inst list"
  cameras :: "camera list"
  shader_buffers :: "bsdf_buffer list"
  top_level_dirty :: bool
  topLevel :: "pointer option"
  asset_path :: "string option"
  background :: "pointer option"
  bg_desc :: "pointer option"
  storage :: pointer
  use_blender_coordinates :: bool
  bg_worker :: "bvh_build_task_arg list"

section \<open>The renderer\<close>

datatype render_order = ro_normal | ro_random | ro_top_to_bottom | ro_from_middle | ro_to_middle

datatype renderer_run_state = r_idle | r_rendering | r_paused | r_exiting | r_finished

datatype cr_renderer_param =
    cr_renderer_threads | cr_renderer_samples | cr_renderer_bounces
  | cr_renderer_tile_width | cr_renderer_tile_height | cr_renderer_tile_order
  | cr_renderer_override_width | cr_renderer_override_height | cr_renderer_override_cam
  | cr_renderer_is_iterative | cr_renderer_asset_path | cr_renderer_node_list
  | cr_renderer_blender_mode | cr_renderer_param_other nat

datatype cr_camera_param =
    cr_camera_fov | cr_camera_focus_distance | cr_camera_fstops
  | cr_camera_pose_x | cr_camera_pose_y | cr_camera_pose_z
  | cr_camera_pose_roll | cr_camera_pose_pitch | cr_camera_pose_yaw
  | cr_camera_time | cr_camera_res_x | cr_camera_res_y | cr_camera_blender_coord
  | cr_camera_param_other nat

text \<open>
  The preferences. Their declaration is outside the sources: each numeric one is kept at the
  width of the \<open>uint64_t\<close> that \<open>cr_renderer_set_num_pref\<close> stores into it.
\<close>

record renderer_prefs =
  threads :: size_t
  sampleCount :: size_t
  bounces :: size_t
  tileWidth :: size_t
  tileHeight :: size_t
  override_width :: size_t
  override_height :: size_t
  selected_camera :: size_t
  iterative :: bool
  blender_mode :: size_t
  tileOrder :: render_order
  node_list :: "string option"

record callback =
  fn :: "pointer option"
  user_data :: "pointer option"

record worker =
  paused :: bool
  in_pause_loop :: bool
  totalSamples :: size_t

datatype precision = char_p | float_p

text \<open>The result buffer: \<open>struct texture\<close>, which the code hands out as \<open>struct cr_bitmap\<close>.\<close>

record texture =
  tex_precision :: precision
  tex_data :: "cfloat list"
  tex_stride :: size_t
  tex_width :: size_t
  tex_height :: size_t

datatype render_tile = Render_tile cint cint cint cint cint cint

record tile_set =
  tiles :: "render_tile list"
  finished :: size_t

record renderer_state =
  callbacks :: "callback list"
  s :: renderer_run_state
  workers :: "worker list"
  result_buf :: "texture option"
  current_set :: "tile_set option"
  finishedPasses :: size_t
  clients :: "pointer list"

record renderer =
  prefs :: renderer_prefs
  state :: renderer_state
  scene :: world

section \<open>Collaborators\<close>

text \<open>
  Functions that \<open>c-ray.c\<close> calls and that are defined in other files of the repository (the
  math library, the BVH builder, the camera, texture and tile modules, the node builder, the
  string and file helpers, the render loop, the C conversions between \<open>double\<close>, \<open>float\<close>
  and \<open>int\<close>). They are parameters: every theorem below holds whatever they compute.
  \<open>build_top_level_bvh\<close> builds the scene-wide index over the instances.
  \<open>thread_pool_wait\<close> returns once the queued background jobs have run; what those jobs
  have done to the scene by then is its result. \<open>build_bsdf_node\<close> and \<open>newBackground\<close>
  intern nodes in the scene's node storage, so they return the scene (the storage) with the
  node. The node descriptions (\<open>struct cr_shader_node\<close>, declared in a header that is not
  among the sources) are kept as addresses, and \<open>shader_deepcopy\<close> as the function that
  yields the address of the copy.
\<close>

record externals =
  mat_mul :: "matrix4x4 \<Rightarrow> matrix4x4 \<Rightarrow> matrix4x4"
  mat_invert :: "matrix4x4 \<Rightarrow> matrix4x4"
  vec_normalize :: "vector \<Rightarrow> vector"
  build_mesh_bvh :: "mesh \<Rightarrow> pointer option"
  new_mesh_instance :: "mesh list \<Rightarrow> int64_t \<Rightarrow> inst"
  new_sphere_instance :: "sphere list \<Rightarrow> int64_t \<Rightarrow> inst"
  build_top_level_bvh :: "inst list \<Rightarrow> pointer option"
  thread_pool_wait :: "world \<Rightarrow> world"
  stringEquals :: "string option \<Rightarrow> string option \<Rightarrow> bool"
  stringCopy :: "string option \<Rightarrow> string option"
  build_bsdf_node :: "world \<Rightarrow> pointer option \<Rightarrow> pointer option \<times> world"
  newBackground :: "pointer \<Rightarrow> bool \<Rightarrow> pointer option \<times> pointer"
  shader_deepcopy :: "pointer option \<Rightarrow> pointer option"
  cam_update_pose :: "camera \<Rightarrow> camera"
  cam_recompute_optics :: "camera \<Rightarrow> camera"
  float_of_double :: "cdouble \<Rightarrow> cfloat"
  int_of_double :: "cdouble \<Rightarrow> cint"
  double_of_float :: "cfloat \<Rightarrow> cdouble"
  double_of_int :: "cint \<Rightarrow> cdouble"
  tex_new :: "precision \<Rightarrow> cint \<Rightarrow> cint \<Rightarrow> size_t \<Rightarrow> texture"
  tex_clear :: "texture \<Rightarrow> texture"
  tile_quantize :: "cint \<Rightarrow> cint \<Rightarrow> size_t \<Rightarrow> size_t \<Rightarrow> render_order \<Rightarrow> render_tile list"
  clients_sync :: "renderer \<Rightarrow> pointer list"
  renderer_render :: "renderer \<Rightarrow> renderer"
  renderer_start_interactive :: "renderer \<Rightarrow> renderer"
  file_load :: "string \<Rightarrow> 8 word list"
  get_file_path :: "string \<Rightarrow> string option"
  cJSON_ParseWithLength :: "8 word list \<Rightarrow> pointer option"
  parse_json :: "renderer \<Rightarrow> pointer option \<Rightarrow> cint \<times> renderer"

section \<open>Scene operations\<close>

text \<open>
  A handle is \<open>None\<close> when the caller passes \<open>NULL\<close>. An operation takes the object behind
  its handle and returns it as the call leaves it, next to the C return value if there is
  one; where the C function can address an array outside its bounds the result is a
  \<open>res\<close>.
\<close>

definition cr_get_scene_totals :: "world option \<Rightarrow> size_t \<times> size_t \<times> size_t \<times> size_t" where
  "cr_get_scene_totals s_ext =
     (case s_ext of
        None \<Rightarrow> (0, 0, 0, 0)
      | Some sc \<Rightarrow>
          (arr_count (meshes sc), arr_count (spheres sc),
           arr_count (instances sc), arr_count (cameras sc)))"

definition cr_scene_add_sphere :: "world option \<Rightarrow> cfloat \<Rightarrow> int64_t \<times> world option" where
  "cr_scene_add_sphere s_ext rad =
     (case s_ext of
        None \<Rightarrow> (- 1, None)
      | Some sc \<Rightarrow>
          (let (idx, arr) = arr_add (spheres sc) \<lparr>radius = rad\<rparr>
           in (idx, Some (sc\<lparr>spheres := arr\<rparr>))))"

subsection \<open>The BVH build task\<close>

definition bvh_build_task :: "externals \<Rightarrow> bvh_build_task_arg \<Rightarrow> world \<Rightarrow> world res" where
  "bvh_build_task X bt sc =
     (case build_mesh_bvh X (bt_mesh bt) of
        None \<Rightarrow> Inr sc
      | Some new_bvh \<Rightarrow>
          if in_bounds (mesh_idx bt) (meshes sc)
          then Inr (sc\<lparr>meshes := (meshes sc)
                  [unat (mesh_idx bt) := (meshes sc ! unat (mesh_idx bt))\<lparr>bvh := Some new_bvh\<rparr>]\<rparr>)
          else Inl OutOfBounds)"

subsection \<open>Meshes\<close>

definition cr_mesh_bind_vertex_buf ::
  "world option \<Rightarrow> int64_t \<Rightarrow> cr_vertex_buf_param \<Rightarrow> world option res" where
  "cr_mesh_bind_vertex_buf s_ext m_idx buf =
     (case s_ext of
        None \<Rightarrow> Inr None
      | Some sc \<Rightarrow>
          if idx_rejected m_idx (meshes sc) then Inr (Some sc)
          else if \<not> in_bounds m_idx (meshes sc) then Inl OutOfBounds
          else
            (case read_n (cr_vertex_buf_param.vertices buf) (vertex_count buf) of
               Inl e \<Rightarrow> Inl e
             | Inr vs \<Rightarrow>
            (case read_n (cr_vertex_buf_param.normals buf) (normal_count buf) of
               Inl e \<Rightarrow> Inl e
             | Inr ns \<Rightarrow>
            (case read_n (tex_coords buf) (tex_coord_count buf) of
               Inl e \<Rightarrow> Inl e
             | Inr ts \<Rightarrow>
                 Inr (Some (sc\<lparr>meshes := (meshes sc)
                   [unat m_idx := (meshes sc ! unat m_idx)
                      \<lparr>vbuf := \<lparr>vertex_buffer.vertices = vs, vertex_buffer.normals = ns,
                                texture_coords = ts\<rparr>\<rparr>]\<rparr>))))))"

definition cr_mesh_bind_faces ::
  "world option \<Rightarrow> int64_t \<Rightarrow> cr_face list option \<Rightarrow> size_t \<Rightarrow> world option res" where
  "cr_mesh_bind_faces s_ext m_idx faces face_count =
     (case s_ext of
        None \<Rightarrow> Inr None
      | Some sc \<Rightarrow>
          (case faces of
             None \<Rightarrow> Inr (Some sc)
           | Some fs \<Rightarrow>
               if idx_rejected m_idx (meshes sc) then Inr (Some sc)
               else if \<not> in_bounds m_idx (meshes sc) then Inl OutOfBounds
               else if \<not> unat face_count \<le> length fs then Inl OutOfBounds
               else
                 Inr (Some (sc\<lparr>meshes := (meshes sc)
                   [unat m_idx := (meshes sc ! unat m_idx)
                      \<lparr>polygons := polygons (meshes sc ! unat m_idx) @ take (unat face_count) fs\<rparr>]\<rparr>))))"

definition cr_mesh_finalize :: "world option \<Rightarrow> int64_t \<Rightarrow> world option res" where
  "cr_mesh_finalize s_ext m_idx =
     (case s_ext of
        None \<Rightarrow> Inr None
      | Some sc \<Rightarrow>
          if idx_rejected m_idx (meshes sc) then Inr (Some sc)
          else if \<not> in_bounds m_idx (meshes sc) then Inl OutOfBounds
          else
            Inr (Some (sc\<lparr>bg_worker := bg_worker sc @
              [\<lparr>bt_mesh = meshes sc ! unat m_idx, mesh_idx = m_idx\<rparr>]\<rparr>)))"

definition cr_scene_mesh_new :: "externals \<Rightarrow> world option \<Rightarrow> string option \<Rightarrow> int64_t \<times> world option" where
  "cr_scene_mesh_new X s_ext nm =
     (case s_ext of
        None \<Rightarrow> (- 1, None)
      | Some sc \<Rightarrow>
          (let new = \<lparr>name = (case nm of None \<Rightarrow> None | Some _ \<Rightarrow> stringCopy X nm),
                      vbuf = \<lparr>vertex_buffer.vertices = [], vertex_buffer.normals = [],
                              texture_coords = []\<rparr>,
                      polygons = [], bvh = None\<rparr>;
               (idx, arr) = arr_add (meshes sc) new
           in (idx, Some (sc\<lparr>meshes := arr\<rparr>))))"

fun find_mesh :: "externals \<Rightarrow> mesh list \<Rightarrow> string option \<Rightarrow> size_t \<Rightarrow> int64_t" where
  "find_mesh X [] nm i = - 1"
| "find_mesh X (m # ms) nm i = (if stringEquals X (name m) nm then i else find_mesh X ms nm (i + 1))"

definition cr_scene_get_mesh :: "externals \<Rightarrow> world option \<Rightarrow> string option \<Rightarrow> int64_t" where
  "cr_scene_get_mesh X s_ext nm =
     (case s_ext of
        None \<Rightarrow> - 1
      | Some sc \<Rightarrow> (case nm of None \<Rightarrow> - 1 | Some _ \<Rightarrow> find_mesh X (meshes sc) nm 0))"

subsection \<open>Instances\<close>

definition cr_instance_new ::
  "externals \<Rightarrow> world option \<Rightarrow> int64_t \<Rightarrow> cr_object_type \<Rightarrow> int64_t \<times> world option" where
  "cr_instance_new X s_ext object type =
     (case s_ext of
        None \<Rightarrow> (- 1, None)
      | Some sc \<Rightarrow>
          (case type of
             cr_object_mesh \<Rightarrow>
               (let new = new_mesh_instance X (meshes sc) object;
                    (idx, arr) = arr_add (instances sc) new
                in (idx, Some (sc\<lparr>top_level_dirty := True, instances := arr\<rparr>)))
           | cr_object_sphere \<Rightarrow>
               (let new = new_sphere_instance X (spheres sc) object;
                    (idx, arr) = arr_add (instances sc) new
                in (idx, Some (sc\<lparr>top_level_dirty := True, instances := arr\<rparr>)))
           | cr_object_type_other _ \<Rightarrow> (- 1, Some sc)))"

fun mtx_convert :: "float4x4 \<Rightarrow> matrix4x4" where
  "mtx_convert ((r00, r01, r02, r03), (r10, r11, r12, r13),
                (r20, r21, r22, r23), (r30, r31, r32, r33)) =
     ((r00, r01, r02, r03), (r10, r11, r12, r13),
      (r20, r21, r22, r23), (r30, r31, r32, r33))"

definition cr_instance_set_transform ::
  "externals \<Rightarrow> world option \<Rightarrow> int64_t \<Rightarrow> float4x4 \<Rightarrow> world option res" where
  "cr_instance_set_transform X s_ext i_idx row_major =
     (case s_ext of
        None \<Rightarrow> Inr None
      | Some sc \<Rightarrow>
          if idx_rejected i_idx (instances sc) then Inr (Some sc)
          else if \<not> in_bounds i_idx (instances sc) then Inl OutOfBounds
          else
            (let i = instances sc ! unat i_idx;
                 mtx = mtx_convert row_major
             in if A (composite i) = mtx then Inr (Some sc)
                else Inr (Some (sc
                  \<lparr>instances := (instances sc)
                     [unat i_idx := i\<lparr>composite := \<lparr>A = mtx, Ainv = mat_invert X mtx\<rparr>\<rparr>],
                   top_level_dirty := True\<rparr>))))"

definition cr_instance_transform ::
  "externals \<Rightarrow> world option \<Rightarrow> int64_t \<Rightarrow> float4x4 \<Rightarrow> world option res" where
  "cr_instance_transform X s_ext i_idx row_major =
     (case s_ext of
        None \<Rightarrow> Inr None
      | Some sc \<Rightarrow>
          if idx_rejected i_idx (instances sc) then Inr (Some sc)
          else if \<not> in_bounds i_idx (instances sc) then Inl OutOfBounds
          else
            (let i = instances sc ! unat i_idx;
                 mtx = mtx_convert row_major;
                 new_A = mat_mul X (A (composite i)) mtx
             in Inr (Some (sc
                  \<lparr>instances := (instances sc)
                     [unat i_idx := i\<lparr>composite := \<lparr>A = new_A, Ainv = mat_invert X new_A\<rparr>\<rparr>],
                   top_level_dirty := True\<rparr>))))"

definition cr_instance_bind_material_set ::
  "world option \<Rightarrow> int64_t \<Rightarrow> int64_t \<Rightarrow> (bool \<times> world option) res" where
  "cr_instance_bind_material_set s_ext i_idx set_idx =
     (case s_ext of
        None \<Rightarrow> Inr (False, None)
      | Some sc \<Rightarrow>
          if idx_rejected i_idx (instances sc) then Inr (False, Some sc)
          else if idx_rejected set_idx (shader_buffers sc) then Inr (False, Some sc)
          else if \<not> in_bounds i_idx (instances sc) then Inl OutOfBounds
          else
            Inr (True, Some (sc\<lparr>instances := (instances sc)
              [unat i_idx := (instances sc ! unat i_idx)\<lparr>bbuf_idx := set_idx\<rparr>]\<rparr>)))"

subsection \<open>Cameras\<close>

text \<open>
  The global \<open>default_camera\<close>: \<open>80.0f\<close>, \<open>1.0f\<close> and \<open>0.0f\<close> as IEEE-754 single patterns,
  800 by 600, and zero in every field the initialiser leaves out.
\<close>

definition default_camera :: camera where
  "default_camera =
     \<lparr>FOV = 0x42A00000, focus_distance = 0, fstops = 0, width = 800, height = 600,
      look_at = (0, 0, 0x3F800000), forward = (0, 0, 0x3F800000),
      right = (0x3F800000, 0, 0), up = (0, 0x3F800000, 0), is_blender = False,
      position = (0, 0, 0), orientation = (0, 0, 0), time = 0\<rparr>"

definition cr_camera_new :: "world option \<Rightarrow> int64_t \<times> world option" where
  "cr_camera_new ext =
     (case ext of
        None \<Rightarrow> (- 1, None)
      | Some sc \<Rightarrow>
          (let (idx, arr) = arr_add (cameras sc) default_camera
           in (idx, Some (sc\<lparr>cameras := arr\<rparr>))))"

text \<open>
  The \<open>switch\<close> of \<open>cr_camera_set_num_pref\<close> on one camera: the camera after the case and the
  value returned. \<open>position\<close> is (x, y, z) and \<open>orientation\<close> is (roll, pitch, yaw). A value
  outside the enumeration falls out of the \<open>switch\<close> to \<open>cam_update_pose\<close> and \<open>false\<close>.
\<close>

fun camera_set :: "externals \<Rightarrow> camera \<Rightarrow> cr_camera_param \<Rightarrow> cdouble \<Rightarrow> camera \<times> bool" where
  "camera_set X cam cr_camera_fov num = (cam\<lparr>FOV := float_of_double X num\<rparr>, True)"
| "camera_set X cam cr_camera_focus_distance num =
     (cam\<lparr>focus_distance := float_of_double X num\<rparr>, True)"
| "camera_set X cam cr_camera_fstops num = (cam\<lparr>fstops := float_of_double X num\<rparr>, True)"
| "camera_set X cam cr_camera_pose_x num =
     (case position cam of (px, py, pz) \<Rightarrow>
        (cam\<lparr>position := (float_of_double X num, py, pz)\<rparr>, True))"
| "camera_set X cam cr_camera_pose_y num =
     (case position cam of (px, py, pz) \<Rightarrow>
        (cam\<lparr>position := (px, float_of_double X num, pz)\<rparr>, True))"
| "camera_set X cam cr_camera_pose_z num =
     (case position cam of (px, py, pz) \<Rightarrow>
        (cam\<lparr>position := (px, py, float_of_double X num)\<rparr>, True))"
| "camera_set X cam cr_camera_pose_roll num =
     (case orientation cam of (roll, pitch, yaw) \<Rightarrow>
        (cam\<lparr>orientation := (float_of_double X num, pitch, yaw)\<rparr>, True))"
| "camera_set X cam cr_camera_pose_pitch num =
     (case orientation cam of (roll, pitch, yaw) \<Rightarrow>
        (cam\<lparr>orientation := (roll, float_of_double X num, yaw)\<rparr>, True))"
| "camera_set X cam cr_camera_pose_yaw num =
     (case orientation cam of (roll, pitch, yaw) \<Rightarrow>
        (cam\<lparr>orientation := (roll, pitch, float_of_double X num)\<rparr>, True))"
| "camera_set X cam cr_camera_time num = (cam\<lparr>time := float_of_double X num\<rparr>, True)"
| "camera_set X cam cr_camera_res_x num = (cam\<lparr>width := int_of_double X num\<rparr>, True)"
| "camera_set X cam cr_camera_res_y num = (cam\<lparr>height := int_of_double X num\<rparr>, True)"
| "camera_set X cam cr_camera_blender_coord num =
     (cam\<lparr>look_at := (0, 0, 0xBF800000),
          forward := vec_normalize X (0, 0, 0xBF800000),
          right := (0x3F800000, 0, 0),
          up := (0, 0xBF800000, 0),
          is_blender := True\<rparr>, True)"
| "camera_set X cam (cr_camera_param_other k) num = (cam_update_pose X cam, False)"

definition cr_camera_set_num_pref ::
  "externals \<Rightarrow> world option \<Rightarrow> int64_t \<Rightarrow> cr_camera_param \<Rightarrow> cdouble \<Rightarrow> (bool \<times> world option) res" where
  "cr_camera_set_num_pref X ext c p num =
     (case ext of
        None \<Rightarrow> Inr (False, None)
      | Some sc \<Rightarrow>
          if sint c < 0 then Inr (False, Some sc)
          else if idx_rejected c (cameras sc) then Inr (False, Some sc)
          else if \<not> in_bounds c (cameras sc) then Inl OutOfBounds
          else
            (case camera_set X (cameras sc ! unat c) p num of
               (cam, ret) \<Rightarrow> Inr (ret, Some (sc\<lparr>cameras := (cameras sc)[unat c := cam]\<rparr>))))"

fun camera_get :: "externals \<Rightarrow> camera \<Rightarrow> cr_camera_param \<Rightarrow> cdouble" where
  "camera_get X cam cr_camera_fov = double_of_float X (FOV cam)"
| "camera_get X cam cr_camera_focus_distance = double_of_float X (focus_distance cam)"
| "camera_get X cam cr_camera_fstops = double_of_float X (fstops cam)"
| "camera_get X cam cr_camera_pose_x =
     (case position cam of (px, py, pz) \<Rightarrow> double_of_float X px)"
| "camera_get X cam cr_camera_pose_y =
     (case position cam of (px, py, pz) \<Rightarrow> double_of_float X py)"
| "camera_get X cam cr_camera_pose_z =
     (case position cam of (px, py, pz) \<Rightarrow> double_of_float X pz)"
| "camera_get X cam cr_camera_pose_roll =
     (case orientation cam of (roll, pitch, yaw) \<Rightarrow> double_of_float X roll)"
| "camera_get X cam cr_camera_pose_pitch =
     (case orientation cam of (roll, pitch, yaw) \<Rightarrow> double_of_float X pitch)"
| "camera_get X cam cr_camera_pose_yaw =
     (case orientation cam of (roll, pitch, yaw) \<Rightarrow> double_of_float X yaw)"
| "camera_get X cam cr_camera_time = double_of_float X (time cam)"
| "camera_get X cam cr_camera_res_x = double_of_int X (width cam)"
| "camera_get X cam cr_camera_res_y = double_of_int X (height cam)"
| "camera_get X cam cr_camera_blender_coord = (if is_blender cam then 0x3FF0000000000000 else 0)"
| "camera_get X cam (cr_camera_param_other k) = 0"

definition cr_camera_get_num_pref ::
  "externals \<Rightarrow> world option \<Rightarrow> int64_t \<Rightarrow> cr_camera_param \<Rightarrow> cdouble res" where
  "cr_camera_get_num_pref X ext c p =
     (case ext of
        None \<Rightarrow> Inr 0
      | Some sc \<Rightarrow>
          if sint c < 0 then Inr 0
          else if idx_rejected c (cameras sc) then Inr 0
          else if \<not> in_bounds c (cameras sc) then Inl OutOfBounds
          else Inr (camera_get X (cameras sc ! unat c) p))"

definition cr_camera_update :: "externals \<Rightarrow> world option \<Rightarrow> int64_t \<Rightarrow> (bool \<times> world option) res" where
  "cr_camera_update X ext c =
     (case ext of
        None \<Rightarrow> Inr (False, None)
      | Some sc \<Rightarrow>
          if sint c < 0 then Inr (False, Some sc)
          else if idx_rejected c (cameras sc) then Inr (False, Some sc)
          else if \<not> in_bounds c (cameras sc) then Inl OutOfBounds
          else
            Inr (True, Some (sc\<lparr>cameras := (cameras sc)
              [unat c := cam_recompute_optics X (cam_update_pose X (cameras sc ! unat c))]\<rparr>)))"

definition cr_camera_remove :: "world option \<Rightarrow> int64_t \<Rightarrow> bool \<times> world option" where
  "cr_camera_remove s_ext c = (False, s_ext)"

subsection \<open>Materials and background\<close>

definition cr_scene_new_material_set :: "world option \<Rightarrow> int64_t \<times> world option" where
  "cr_scene_new_material_set s_ext =
     (case s_ext of
        None \<Rightarrow> (- 1, None)
      | Some sc \<Rightarrow>
          (let (idx, arr) = arr_add (shader_buffers sc) \<lparr>bsdfs = [], descriptions = []\<rparr>
           in (idx, Some (sc\<lparr>shader_buffers := arr\<rparr>))))"

definition cr_material_set_add ::
  "externals \<Rightarrow> world option \<Rightarrow> int64_t \<Rightarrow> pointer option \<Rightarrow> (int64_t \<times> world option) res" where
  "cr_material_set_add X s_ext set_idx desc =
     (case s_ext of
        None \<Rightarrow> Inr (- 1, None)
      | Some sc \<Rightarrow>
          if idx_rejected set_idx (shader_buffers sc) then Inr (- 1, Some sc)
          else if \<not> in_bounds set_idx (shader_buffers sc) then Inl OutOfBounds
          else
            (case build_bsdf_node X sc desc of
               (node, sc1) \<Rightarrow>
                 if \<not> in_bounds set_idx (shader_buffers sc1) then Inl OutOfBounds
                 else
                   (let buf = shader_buffers sc1 ! unat set_idx;
                        (d_idx, ds) = arr_add (descriptions buf) (shader_deepcopy X desc);
                        (idx, bs) = arr_add (bsdfs buf) node
                    in Inr (idx, Some (sc1\<lparr>shader_buffers := (shader_buffers sc1)
                          [unat set_idx := buf\<lparr>descriptions := ds, bsdfs := bs\<rparr>]\<rparr>)))))"

definition cr_material_update ::
  "externals \<Rightarrow> world option \<Rightarrow> int64_t \<Rightarrow> int64_t \<Rightarrow> pointer option \<Rightarrow> world option res" where
  "cr_material_update X s_ext set_idx mat desc =
     (case s_ext of
        None \<Rightarrow> Inr None
      | Some sc \<Rightarrow>
          if idx_rejected set_idx (shader_buffers sc) then Inr (Some sc)
          else if \<not> in_bounds set_idx (shader_buffers sc) then Inl OutOfBounds
          else if idx_rejected mat (descriptions (shader_buffers sc ! unat set_idx))
          then Inr (Some sc)
          else
            (case build_bsdf_node X sc desc of
               (node, sc1) \<Rightarrow>
                 if \<not> in_bounds set_idx (shader_buffers sc1) then Inl OutOfBounds
                 else
                   (let buf = shader_buffers sc1 ! unat set_idx
                    in if \<not> in_bounds mat (bsdfs buf) then Inl OutOfBounds
                       else if \<not> in_bounds mat (descriptions buf) then Inl OutOfBounds
                       else
                         Inr (Some (sc1\<lparr>shader_buffers := (shader_buffers sc1)
                           [unat set_idx := buf
                              \<lparr>bsdfs := (bsdfs buf)[unat mat := node],
                               descriptions := (descriptions buf)
                                 [unat mat := shader_deepcopy X desc]\<rparr>]\<rparr>)))))"

definition cr_scene_set_background ::
  "externals \<Rightarrow> world option \<Rightarrow> pointer option \<Rightarrow> bool \<times> world option" where
  "cr_scene_set_background X s_ext desc =
     (case s_ext of
        None \<Rightarrow> (False, None)
      | Some sc \<Rightarrow>
          (case desc of
             Some d \<Rightarrow>
               (case build_bsdf_node X sc desc of
                  (node, sc1) \<Rightarrow>
                    (True, Some (sc1\<lparr>background := node, bg_desc := shader_deepcopy X desc\<rparr>)))
           | None \<Rightarrow>
               (case newBackground X (storage sc) (use_blender_coordinates sc) of
                  (node, st) \<Rightarrow>
                    (True, Some (sc\<lparr>storage := st, background := node, bg_desc := None\<rparr>)))))"

section \<open>Renderer operations\<close>

subsection \<open>Callbacks and preferences\<close>

text \<open>
  \<open>enum cr_renderer_callback\<close> is the slot's number; its last value is 4.
\<close>

definition cr_cb_on_interactive_pass_finished :: nat where
  "cr_cb_on_interactive_pass_finished = 4"

definition cr_renderer_set_callback ::
  "renderer option \<Rightarrow> nat \<Rightarrow> pointer option \<Rightarrow> pointer option \<Rightarrow> (bool \<times> renderer option) res" where
  "cr_renderer_set_callback ext t callback_fn data =
     (case ext of
        None \<Rightarrow> Inr (False, None)
      | Some r \<Rightarrow>
          if t > cr_cb_on_interactive_pass_finished then Inr (False, Some r)
          else if \<not> t < length (callbacks (state r)) then Inl OutOfBounds
          else
            Inr (True, Some (r\<lparr>state := (state r)\<lparr>callbacks := (callbacks (state r))
              [t := \<lparr>fn = callback_fn, user_data = data\<rparr>]\<rparr>\<rparr>)))"

fun set_num_pref :: "renderer \<Rightarrow> cr_renderer_param \<Rightarrow> 64 word \<Rightarrow> bool \<times> renderer" where
  "set_num_pref r cr_renderer_threads num = (True, r\<lparr>prefs := (prefs r)\<lparr>threads := num\<rparr>\<rparr>)"
| "set_num_pref r cr_renderer_samples num = (True, r\<lparr>prefs := (prefs r)\<lparr>sampleCount := num\<rparr>\<rparr>)"
| "set_num_pref r cr_renderer_bounces num =
     (if num > 512 then (False, r) else (True, r\<lparr>prefs := (prefs r)\<lparr>bounces := num\<rparr>\<rparr>))"
| "set_num_pref r cr_renderer_tile_width num = (True, r\<lparr>prefs := (prefs r)\<lparr>tileWidth := num\<rparr>\<rparr>)"
| "set_num_pref r cr_renderer_tile_height num = (True, r\<lparr>prefs := (prefs r)\<lparr>tileHeight := num\<rparr>\<rparr>)"
| "set_num_pref r cr_renderer_override_width num =
     (True, r\<lparr>prefs := (prefs r)\<lparr>override_width := num\<rparr>\<rparr>)"
| "set_num_pref r cr_renderer_override_height num =
     (True, r\<lparr>prefs := (prefs r)\<lparr>override_height := num\<rparr>\<rparr>)"
| "set_num_pref r cr_renderer_override_cam num =
     (if arr_count (cameras (scene r)) = 0 then (False, r)
      else if num \<ge> arr_count (cameras (scene r)) then (False, r)
      else (True, r\<lparr>prefs := (prefs r)\<lparr>selected_camera := num\<rparr>\<rparr>))"
| "set_num_pref r cr_renderer_is_iterative num = (True, r\<lparr>prefs := (prefs r)\<lparr>iterative := True\<rparr>\<rparr>)"
| "set_num_pref r cr_renderer_blender_mode num =
     (True, r\<lparr>prefs := (prefs r)\<lparr>blender_mode := num\<rparr>\<rparr>)"
| "set_num_pref r cr_renderer_tile_order num = (False, r)"
| "set_num_pref r cr_renderer_asset_path num = (False, r)"
| "set_num_pref r cr_renderer_node_list num = (False, r)"
| "set_num_pref r (cr_renderer_param_other k) num = (False, r)"

definition cr_renderer_set_num_pref ::
  "renderer option \<Rightarrow> cr_renderer_param \<Rightarrow> 64 word \<Rightarrow> bool \<times> renderer option" where
  "cr_renderer_set_num_pref ext p num =
     (case ext of
        None \<Rightarrow> (False, None)
      | Some r \<Rightarrow> (case set_num_pref r p num of (ret, r') \<Rightarrow> (ret, Some r')))"

definition tile_order_of :: "externals \<Rightarrow> string option \<Rightarrow> render_order" where
  "tile_order_of X str =
     (if stringEquals X str (Some ''random'') then ro_random
      else if stringEquals X str (Some ''topToBottom'') then ro_top_to_bottom
      else if stringEquals X str (Some ''fromMiddle'') then ro_from_middle
      else if stringEquals X str (Some ''toMiddle'') then ro_to_middle
      else ro_normal)"

definition set_str_pref ::
  "externals \<Rightarrow> renderer \<Rightarrow> cr_renderer_param \<Rightarrow> string option \<Rightarrow> bool \<times> renderer" where
  "set_str_pref X r p str =
     (case p of
        cr_renderer_tile_order \<Rightarrow>
          (True, r\<lparr>prefs := (prefs r)\<lparr>tileOrder := tile_order_of X str\<rparr>\<rparr>)
      | cr_renderer_asset_path \<Rightarrow>
          (True, r\<lparr>scene := (scene r)\<lparr>asset_path := stringCopy X str\<rparr>\<rparr>)
      | cr_renderer_node_list \<Rightarrow>
          (True, r\<lparr>prefs := (prefs r)\<lparr>node_list := stringCopy X str\<rparr>\<rparr>)
      | _ \<Rightarrow> (False, r))"

definition cr_renderer_set_str_pref ::
  "externals \<Rightarrow> renderer option \<Rightarrow> cr_renderer_param \<Rightarrow> string option \<Rightarrow> bool \<times> renderer option" where
  "cr_renderer_set_str_pref X ext p str =
     (case ext of
        None \<Rightarrow> (False, None)
      | Some r \<Rightarrow> (case set_str_pref X r p str of (ret, r') \<Rightarrow> (ret, Some r')))"

definition cr_renderer_get_str_pref :: "renderer option \<Rightarrow> cr_renderer_param \<Rightarrow> string option" where
  "cr_renderer_get_str_pref ext p =
     (case ext of
        None \<Rightarrow> None
      | Some r \<Rightarrow> (case p of cr_renderer_asset_path \<Rightarrow> asset_path (scene r) | _ \<Rightarrow> None))"

definition cr_renderer_get_num_pref :: "renderer option \<Rightarrow> cr_renderer_param \<Rightarrow> 64 word" where
  "cr_renderer_get_num_pref ext p =
     (case ext of
        None \<Rightarrow> 0
      | Some r \<Rightarrow>
          (case p of
             cr_renderer_threads \<Rightarrow> threads (prefs r)
           | cr_renderer_samples \<Rightarrow> sampleCount (prefs r)
           | cr_renderer_bounces \<Rightarrow> bounces (prefs r)
           | cr_renderer_tile_width \<Rightarrow> tileWidth (prefs r)
           | cr_renderer_tile_height \<Rightarrow> tileHeight (prefs r)
           | cr_renderer_override_width \<Rightarrow> override_width (prefs r)
           | cr_renderer_override_height \<Rightarrow> override_height (prefs r)
           | _ \<Rightarrow> 0))"

definition cr_renderer_scene_get :: "renderer option \<Rightarrow> world option \<times> renderer option" where
  "cr_renderer_scene_get ext =
     (case ext of
        None \<Rightarrow> (None, None)
      | Some r \<Rightarrow>
          (let r' = (if blender_mode (prefs r) \<noteq> 0
                     then r\<lparr>scene := (scene r)\<lparr>use_blender_coordinates := True\<rparr>\<rparr>
                     else r)
           in (Some (scene r'), Some r')))"

definition cr_renderer_get_result :: "renderer option \<Rightarrow> texture option" where
  "cr_renderer_get_result ext = (case ext of None \<Rightarrow> None | Some r \<Rightarrow> result_buf (state r))"

text \<open>\<open>ASSERT(r)\<close> aborts on \<open>NULL\<close>; \<open>renderer_destroy\<close> frees the renderer, and the handle is dead.\<close>

definition cr_destroy_renderer :: "renderer option \<Rightarrow> renderer option res" where
  "cr_destroy_renderer ext = (case ext of None \<Rightarrow> Inl AssertionFailed | Some r \<Rightarrow> Inr None)"

text \<open>\<open>dump_renderer_state\<close> prints; logging is not state of the model.\<close>

definition cr_debug_dump_state :: "renderer option \<Rightarrow> renderer option" where
  "cr_debug_dump_state r_ext = (case r_ext of None \<Rightarrow> None | Some r \<Rightarrow> Some r)"

subsection \<open>Pausing\<close>

text \<open>
  The loop \<open>for (size_t i = 0; i < n; ++i) workers.items[i] = f(workers.items[i])\<close>, with
  \<open>n\<close> the thread preference: it leaves the array at index \<open>length ws\<close>.
\<close>

function for_workers :: "(worker \<Rightarrow> worker) \<Rightarrow> nat \<Rightarrow> nat \<Rightarrow> worker list \<Rightarrow> worker list res" where
  "for_workers f n i ws =
     (if i < n
      then (if i < length ws then for_workers f n (Suc i) (ws[i := f (ws ! i)])
            else Inl OutOfBounds)
      else Inr ws)"
  by pat_completeness auto
termination
  by (relation "measure (\<lambda>(f, n, i, ws). n - i)") auto

declare for_workers.simps [simp del]

definition toggle_pause_workers :: "renderer \<Rightarrow> renderer res" where
  "toggle_pause_workers r =
     (case for_workers (\<lambda>w. w\<lparr>paused := \<not> paused w\<rparr>) (unat (threads (prefs r))) 0
             (workers (state r)) of
        Inl e \<Rightarrow> Inl e
      | Inr ws \<Rightarrow> Inr (r\<lparr>state := (state r)\<lparr>workers := ws\<rparr>\<rparr>))"

definition cr_renderer_toggle_pause :: "renderer option \<Rightarrow> renderer option res" where
  "cr_renderer_toggle_pause ext =
     (case ext of
        None \<Rightarrow> Inr None
      | Some r \<Rightarrow> (case toggle_pause_workers r of Inl e \<Rightarrow> Inl e | Inr r' \<Rightarrow> Inr (Some r')))"

subsection \<open>Calls that wait for other threads\<close>

text \<open>
  \<open>cr_renderer_stop\<close> and \<open>cr_renderer_restart_interactive\<close> spin on memory that other
  threads write: the run state \<open>r->state.s\<close> and the workers' \<open>in_pause_loop\<close> flags. The
  other threads are an input of the model: a list of observations, one for each read of such
  a location, in the order of the reads. An observation says what the workers' flags and the
  run state hold at that read. A call that is still spinning when the list ends has not
  returned: its outcome is \<open>Spinning\<close>.
\<close>

record observation =
  obs_in_pause_loop :: "nat \<Rightarrow> bool"
  obs_s :: renderer_run_state

datatype 'a outcome = Returned 'a | Faulted fault | Spinning

text \<open>
  \<open>do { timer_sleep_ms(10); } while (r->prefs.iterative && r->state.s == r_exiting)\<close>,
  entered with \<open>iterative\<close> set: the run state that ends the loop.
\<close>

fun stop_wait :: "observation list \<Rightarrow> renderer_run_state option" where
  "stop_wait [] = None"
| "stop_wait (e # env) = (if obs_s e = r_exiting then stop_wait env else Some (obs_s e))"

definition cr_renderer_stop :: "observation list \<Rightarrow> renderer option \<Rightarrow> renderer option outcome" where
  "cr_renderer_stop env ext =
     (case ext of
        None \<Rightarrow> Returned None
      | Some r \<Rightarrow>
          (let r1 = r\<lparr>state := (state r)\<lparr>s := r_exiting\<rparr>\<rparr>
           in if \<not> iterative (prefs r1) then Returned (Some r1)
              else (case stop_wait env of
                      None \<Rightarrow> Spinning
                    | Some v \<Rightarrow> Returned (Some (r1\<lparr>state := (state r1)\<lparr>s := v\<rparr>\<rparr>)))))"

text \<open>
  The restart is modelled with the trace of what it does to the shared result buffer, tile
  set and workers, in program order, next to its outcome. \<open>Ev_observed_in_pause_loop i k\<close>
  stands for: the read number \<open>k\<close> of the call (the observation at position \<open>k\<close> of the
  list) was a read of worker \<open>i\<close>'s flag, and found it set.
\<close>

datatype event =
    Ev_recompute_optics
  | Ev_toggle_pause
  | Ev_observed_in_pause_loop nat nat
  | Ev_tex_destroy
  | Ev_tex_new
  | Ev_tile_arr_free
  | Ev_tiles_assigned
  | Ev_finished_reset
  | Ev_tex_clear
  | Ev_samples_reset
  | Ev_update_toplevel
  | Ev_pool_wait

text \<open>
  The structural mutations: the result buffer is destroyed or replaced, the tile array is
  freed or replaced. Clearing the pixels and resetting counters keep the structure.
\<close>

fun structural :: "event \<Rightarrow> bool" where
  "structural Ev_tex_destroy = True"
| "structural Ev_tex_new = True"
| "structural Ev_tile_arr_free = True"
| "structural Ev_tiles_assigned = True"
| "structural ev = False"

datatype wait_result = Acked | Stopped | Still_waiting

text \<open>
  \<open>for (i = 0; i < workers.count; ++i) while (!workers.items[i].in_pause_loop) {
  timer_sleep_ms(1); if (r->state.s != r_rendering) bail out }\<close>, from worker \<open>i\<close> on. Each
  read of a flag and each read of the run state takes the next observation; \<open>k\<close> counts the
  reads made so far.
\<close>

fun wait_for_acks ::
  "nat \<Rightarrow> nat \<Rightarrow> nat \<Rightarrow> observation list \<Rightarrow> event list \<times> wait_result" where
  "wait_for_acks n i k env =
     (if n \<le> i then ([], Acked)
      else
        (case env of
           [] \<Rightarrow> ([], Still_waiting)
         | e # env1 \<Rightarrow>
             if obs_in_pause_loop e i
             then (case wait_for_acks n (Suc i) (Suc k) env1 of
                     (tr, w) \<Rightarrow> (Ev_observed_in_pause_loop i k # tr, w))
             else
               (case env1 of
                  [] \<Rightarrow> ([], Still_waiting)
                | e2 # env2 \<Rightarrow>
                    if obs_s e2 \<noteq> r_rendering then ([], Stopped)
                    else wait_for_acks n i (Suc (Suc k)) env2)))"

declare wait_for_acks.simps [simp del]

text \<open>
  Modelled from the spec: \<open>update_toplevel_bvh\<close> is called by the restart and defined in a
  file that is not among the sources. The specification says of it that the scene has a dirty
  flag for the top-level structure, that the structure "is rebuilt, not patched, whenever
  marked dirty", that mutations only set the flag and the renderer rebuilds before starting
  or restarting a pass, and that a restart "rebuilds the top-level index if dirty". So: on a
  scene that is marked dirty the index is built anew over the instances; a scene that is not
  marked is left as it is. The specification does not say what becomes of the mark, and the
  model does not touch it.
\<close>

definition update_toplevel_bvh :: "externals \<Rightarrow> world \<Rightarrow> world" where
  "update_toplevel_bvh X w =
     (if top_level_dirty w
      then w\<lparr>topLevel := build_top_level_bvh X (instances w)\<rparr>
      else w)"

text \<open>
  The part of the restart after the resize block (from \<open>r->state.finishedPasses = 1\<close>), for the
  result buffer \<open>rb\<close> and tile set \<open>cs\<close> the renderer holds at that point.
\<close>

definition restart_tail ::
  "externals \<Rightarrow> renderer \<Rightarrow> texture \<Rightarrow> tile_set \<Rightarrow> event list \<times> renderer option outcome" where
  "restart_tail X r rb cs =
     (case for_workers (\<lambda>w. w\<lparr>totalSamples := 0\<rparr>) (unat (threads (prefs r))) 0
             (workers (state r)) of
        Inl e \<Rightarrow> ([Ev_tex_clear, Ev_finished_reset], Faulted e)
      | Inr ws \<Rightarrow>
          ([Ev_tex_clear, Ev_finished_reset, Ev_samples_reset, Ev_update_toplevel, Ev_pool_wait],
           Returned (Some (r
             \<lparr>state := (state r)
                \<lparr>finishedPasses := 1,
                 result_buf := Some (tex_clear X rb),
                 current_set := Some (cs\<lparr>finished := 0\<rparr>),
                 workers := ws\<rparr>,
              scene := thread_pool_wait X (update_toplevel_bvh X (scene r))\<rparr>))))"

text \<open>The resize block, for the selected camera \<open>cam\<close> (at index \<open>sel\<close>) and the tile set \<open>cs\<close>.\<close>

definition restart_resize ::
  "externals \<Rightarrow> observation list \<Rightarrow> renderer \<Rightarrow> nat \<Rightarrow> camera \<Rightarrow> tile_set \<Rightarrow>
     event list \<times> renderer option outcome" where
  "restart_resize X env r sel cam cs =
     (let cam1 = cam_recompute_optics X cam;
          r1 = r\<lparr>scene := (scene r)\<lparr>cameras := (cameras (scene r))[sel := cam1]\<rparr>\<rparr>
      in case toggle_pause_workers r1 of
           Inl e \<Rightarrow> ([Ev_recompute_optics], Faulted e)
         | Inr r2 \<Rightarrow>
             (case wait_for_acks (unat (arr_count (workers (state r2)))) 0 0 env of
                (tr, Still_waiting) \<Rightarrow> ([Ev_recompute_optics, Ev_toggle_pause] @ tr, Spinning)
              | (tr, Stopped) \<Rightarrow>
                  (case toggle_pause_workers r2 of
                     Inl e \<Rightarrow> ([Ev_recompute_optics, Ev_toggle_pause] @ tr, Faulted e)
                   | Inr r3 \<Rightarrow>
                       ([Ev_recompute_optics, Ev_toggle_pause] @ tr @ [Ev_toggle_pause],
                        Returned (Some r3)))
              | (tr, Acked) \<Rightarrow>
                  (let new_buf = tex_new X float_p (width cam1) (height cam1) 4;
                       new_tiles = tile_quantize X (width cam1) (height cam1)
                         (tileWidth (prefs r2)) (tileHeight (prefs r2)) (tileOrder (prefs r2));
                       cs1 = cs\<lparr>tiles := new_tiles, finished := 0\<rparr>;
                       r3 = r2\<lparr>state := (state r2)
                              \<lparr>result_buf := Some new_buf, current_set := Some cs1\<rparr>\<rparr>;
                       swap = [Ev_recompute_optics, Ev_toggle_pause] @ tr @
                              [Ev_tex_destroy, Ev_tex_new, Ev_tile_arr_free, Ev_tiles_assigned,
                               Ev_finished_reset]
                   in case toggle_pause_workers r3 of
                        Inl e \<Rightarrow> (swap, Faulted e)
                      | Inr r4 \<Rightarrow>
                          (case restart_tail X r4 new_buf cs1 of
                             (tr2, out) \<Rightarrow> (swap @ [Ev_toggle_pause] @ tr2, out)))))"

definition cr_renderer_restart_interactive ::
  "externals \<Rightarrow> observation list \<Rightarrow> renderer option \<Rightarrow> event list \<times> renderer option outcome" where
  "cr_renderer_restart_interactive X env ext =
     (case ext of
        None \<Rightarrow> ([], Returned None)
      | Some r \<Rightarrow>
          if \<not> iterative (prefs r) then ([], Returned (Some r))
          else if arr_count (workers (state r)) = 0 then ([], Returned (Some r))
          else
            (case result_buf (state r) of
               None \<Rightarrow> ([], Returned (Some r))
             | Some rb \<Rightarrow>
                 (case current_set (state r) of
                    None \<Rightarrow> ([], Returned (Some r))
                  | Some cs \<Rightarrow>
                      if \<not> in_bounds (selected_camera (prefs r)) (cameras (scene r))
                      then ([], Faulted OutOfBounds)
                      else
                        (let sel = unat (selected_camera (prefs r));
                             cam = cameras (scene r) ! sel
                         in if tex_width rb \<noteq> scast (width cam) \<or> tex_height rb \<noteq> scast (height cam)
                            then restart_resize X env r sel cam cs
                            else restart_tail X r rb cs))))"

subsection \<open>Starting a render, loading a scene\<close>

definition cr_renderer_render :: "externals \<Rightarrow> renderer option \<Rightarrow> renderer option" where
  "cr_renderer_render X ext =
     (case ext of
        None \<Rightarrow> None
      | Some r \<Rightarrow>
          (let r1 = (case node_list (prefs r) of
                       None \<Rightarrow> r
                     | Some nodes \<Rightarrow>
                         (let r0 = r\<lparr>scene := thread_pool_wait X (scene r)\<rparr>
                          in r0\<lparr>state := (state r0)\<lparr>clients := clients_sync X r0\<rparr>\<rparr>))
           in if arr_count (clients (state r1)) = 0 \<and> threads (prefs r1) = 0 then Some r1
              else Some (renderer_render X r1)))"

definition cr_renderer_start_interactive :: "externals \<Rightarrow> renderer option \<Rightarrow> renderer option" where
  "cr_renderer_start_interactive X ext =
     (case ext of
        None \<Rightarrow> None
      | Some r \<Rightarrow>
          (let r1 = r\<lparr>prefs := (prefs r)\<lparr>iterative := True\<rparr>\<rparr>
           in if threads (prefs r1) = 0 then Some r1
              else Some (renderer_start_interactive X r1)))"

definition cr_load_json ::
  "externals \<Rightarrow> renderer option \<Rightarrow> string option \<Rightarrow> bool \<times> renderer option" where
  "cr_load_json X r_ext file_path =
     (case r_ext of
        None \<Rightarrow> (False, None)
      | Some r \<Rightarrow>
          (case file_path of
             None \<Rightarrow> (False, Some r)
           | Some path \<Rightarrow>
               (let input_bytes = file_load X path
                in if arr_count input_bytes = 0 then (False, Some r)
                   else
                     (case set_str_pref X r cr_renderer_asset_path (get_file_path X path) of
                        (ok, r1) \<Rightarrow>
                          (case parse_json X r1 (cJSON_ParseWithLength X input_bytes) of
                             (rc, r2) \<Rightarrow>
                               if sint rc < 0 then (False, Some r2) else (True, Some r2))))))"

section \<open>Sample inputs\<close>

text \<open>
  Concrete inputs for the examples that follow the theorems: a scene with nothing in it, and
  one choice of collaborators. The theorems quantify over all collaborators; the examples
  need one. Here the "product" of two matrices adds them entry by entry and the "inverse"
  negates, on the bit patterns.
\<close>

definition empty_scene :: world where
  "empty_scene =
     \<lparr>meshes = [], spheres = [], instances = [], cameras = [], shader_buffers = [],
      top_level_dirty = False, topLevel = None, asset_path = None, background = None,
      bg_desc = None, storage = 0, use_blender_coordinates = False, bg_worker = []\<rparr>"

fun row_add :: "row4 \<Rightarrow> row4 \<Rightarrow> row4" where
  "row_add (a0, a1, a2, a3) (b0, b1, b2, b3) = (a0 + b0, a1 + b1, a2 + b2, a3 + b3)"

fun row_neg :: "row4 \<Rightarrow> row4" where
  "row_neg (a0, a1, a2, a3) = (- a0, - a1, - a2, - a3)"

fun sample_mat_mul :: "matrix4x4 \<Rightarrow> matrix4x4 \<Rightarrow> matrix4x4" where
  "sample_mat_mul (p0, p1, p2, p3) (q0, q1, q2, q3) =
     (row_add p0 q0, row_add p1 q1, row_add p2 q2, row_add p3 q3)"

fun sample_mat_invert :: "matrix4x4 \<Rightarrow> matrix4x4" where
  "sample_mat_invert (p0, p1, p2, p3) = (row_neg p0, row_neg p1, row_neg p2, row_neg p3)"

definition const_matrix :: "cfloat \<Rightarrow> matrix4x4" where
  "const_matrix c = ((c, c, c, c), (c, c, c, c), (c, c, c, c), (c, c, c, c))"

definition sample_inst :: inst where
  "sample_inst =
     \<lparr>composite = \<lparr>A = const_matrix 0, Ainv = const_matrix 0\<rparr>, bbuf_idx = 0,
      object_idx = 0, object_kind = cr_object_mesh\<rparr>"

definition sample_mesh :: mesh where
  "sample_mesh =
     \<lparr>name = None,
      vbuf = \<lparr>vertex_buffer.vertices = [], vertex_buffer.normals = [], texture_coords = []\<rparr>,
      polygons = [], bvh = None\<rparr>"

definition sample_face :: "16 word \<Rightarrow> cr_face" where
  "sample_face m =
     \<lparr>vertex_idx = (0, 1, 2), normal_idx = (0, 0, 0), texture_idx = (0, 0, 0),
      mat_idx = m, has_normals = False\<rparr>"

definition sample_externals :: externals where
  "sample_externals =
     \<lparr>mat_mul = sample_mat_mul,
      mat_invert = sample_mat_invert,
      vec_normalize = (\<lambda>v. v),
      build_mesh_bvh = (\<lambda>m. if polygons m = [] then None else Some (length (polygons m))),
      new_mesh_instance = (\<lambda>ms obj. sample_inst\<lparr>object_idx := obj\<rparr>),
      new_sphere_instance =
        (\<lambda>ss obj. sample_inst\<lparr>object_idx := obj, object_kind := cr_object_sphere\<rparr>),
      build_top_level_bvh = (\<lambda>is. Some (length is)),
      thread_pool_wait = (\<lambda>w. w\<lparr>bg_worker := []\<rparr>),
      stringEquals = (\<lambda>a b. a = b),
      stringCopy = (\<lambda>a. a),
      build_bsdf_node = (\<lambda>w d. (d, w)),
      newBackground = (\<lambda>st b. (None, st)),
      shader_deepcopy = (\<lambda>d. d),
      cam_update_pose = (\<lambda>c. c),
      cam_recompute_optics = (\<lambda>c. c),
      float_of_double = ucast,
      int_of_double = ucast,
      double_of_float = ucast,
      double_of_int = ucast,
      tex_new = (\<lambda>p w h c.
        \<lparr>tex_precision = p, tex_data = [], tex_stride = c, tex_width = scast w,
         tex_height = scast h\<rparr>),
      tex_clear = (\<lambda>t. t\<lparr>tex_data := []\<rparr>),
      tile_quantize = (\<lambda>w h tw th ord. [Render_tile w h 0 0 w h]),
      clients_sync = (\<lambda>r. []),
      renderer_render = (\<lambda>r. r),
      renderer_start_interactive = (\<lambda>r. r),
      file_load = (\<lambda>path. []),
      get_file_path = (\<lambda>path. Some path),
      cJSON_ParseWithLength = (\<lambda>bytes. None),
      parse_json = (\<lambda>r j. (0, r))\<rparr>"

definition sample_worker :: worker where
  "sample_worker = \<lparr>paused = False, in_pause_loop = False, totalSamples = 9\<rparr>"

definition sample_texture :: texture where
  "sample_texture =
     \<lparr>tex_precision = float_p, tex_data = [1, 2, 3, 4], tex_stride = 4, tex_width = 800,
      tex_height = 600\<rparr>"

text \<open>
  An interactive renderer in the middle of a render: two local worker threads, an 800 by 600
  result buffer, one default camera (800 by 600), five finished passes.
\<close>

definition sample_renderer :: renderer where
  "sample_renderer =
     \<lparr>prefs =
        \<lparr>threads = 2, sampleCount = 25, bounces = 30, tileWidth = 32, tileHeight = 32,
         override_width = 0, override_height = 0, selected_camera = 0, iterative = True,
         blender_mode = 0, tileOrder = ro_normal, node_list = None\<rparr>,
      state =
        \<lparr>callbacks = replicate 5 \<lparr>fn = None, user_data = None\<rparr>,
         s = r_rendering,
         workers = [sample_worker, sample_worker\<lparr>paused := True\<rparr>],
         result_buf = Some sample_texture,
         current_set = Some \<lparr>tiles = [Render_tile 800 600 0 0 800 600], finished = 1\<rparr>,
         finishedPasses = 5,
         clients = []\<rparr>,
      scene = empty_scene\<lparr>cameras := [default_camera]\<rparr>\<rparr>"

text \<open>The same renderer after the camera was set to a width of 640.\<close>

definition resized_renderer :: renderer where
  "resized_renderer =
     sample_renderer\<lparr>scene := empty_scene\<lparr>cameras := [default_camera\<lparr>width := 640\<rparr>]\<rparr>\<rparr>"

definition acked_by :: "nat list \<Rightarrow> renderer_run_state \<Rightarrow> observation" where
  "acked_by ws st = \<lparr>obs_in_pause_loop = (\<lambda>i. i \<in> set ws), obs_s = st\<rparr>"

text \<open>
  What the other threads show at the four reads of a restart: worker 0 is parked from the
  start, worker 1 at the second look; the render goes on.
\<close>

definition sample_observations :: "observation list" where
  "sample_observations =
     [acked_by [0] r_rendering, acked_by [0] r_rendering, acked_by [0] r_rendering,
      acked_by [0, 1] r_rendering]"

section \<open>Index guards\<close>

text \<open>
  On an array that is not empty (and shorter than \<open>2^64\<close>, as every array in memory is) the
  guard \<open>(size_t)i > count - 1\<close> rejects exactly the indices outside the array. On an empty
  array \<open>count - 1\<close> wraps to the largest \<open>size_t\<close> and the guard rejects nothing.
\<close>

lemma unat_arr_count: "length xs < 2 ^ 64 \<Longrightarrow> unat (arr_count xs) = length xs"
  by (simp add: arr_count_def unat_of_nat)

lemma arr_count_minus_one:
  assumes "0 < length xs" "length xs < 2 ^ 64"
  shows "unat (arr_count xs - 1) = length xs - 1"
proof -
  have u: "unat (arr_count xs) = length xs"
    using assms(2) by (rule unat_arr_count)
  have "arr_count xs \<noteq> 0"
    using u assms(1) by (metis less_nat_zero_code unat_0)
  then show ?thesis
    using u by (simp add: unat_minus_one)
qed

lemma idx_rejected_iff:
  assumes "0 < length xs" "length xs < 2 ^ 64"
  shows "idx_rejected i xs \<longleftrightarrow> \<not> in_bounds i xs"
proof -
  have "idx_rejected i xs \<longleftrightarrow> length xs - 1 < unat i"
    using arr_count_minus_one[OF assms] by (simp add: idx_rejected_def word_less_nat_alt)
  also have "\<dots> \<longleftrightarrow> \<not> unat i < length xs"
    using assms(1) by arith
  finally show ?thesis
    by (simp add: in_bounds_def)
qed

lemma idx_rejected_empty: "\<not> idx_rejected i []"
  by (simp add: idx_rejected_def arr_count_def not_less)

lemma not_in_bounds_empty: "\<not> in_bounds i []"
  by (simp add: in_bounds_def)

lemma in_bounds_accepted:
  assumes "in_bounds i xs" "length xs < 2 ^ 64"
  shows "\<not> idx_rejected i xs"
proof -
  have "0 < length xs"
    using assms(1) by (auto simp: in_bounds_def)
  then show ?thesis
    using idx_rejected_iff[of xs i] assms by simp
qed

section \<open>A failed BVH build\<close>

text \<open>
  Claim C5. When \<open>build_mesh_bvh\<close> fails (returns \<open>NULL\<close>) for the task's copy of the mesh,
  \<open>bvh_build_task\<close> returns normally and the scene it was given is unchanged as a whole: no
  swap happens, the mesh's BVH pointer keeps the value it had (present or absent), and
  nothing the render depends on is touched.
\<close>

theorem bvh_build_failure_no_swap:
  assumes "build_mesh_bvh X (bt_mesh bt) = None"
  shows "bvh_build_task X bt sc = Inr sc"
  using assms by (simp add: bvh_build_task_def)

theorem bvh_build_failure_no_swap_witness:
  "build_mesh_bvh sample_externals (bt_mesh \<lparr>bt_mesh = sample_mesh, mesh_idx = 0\<rparr>) = None
   \<and> bvh_build_task sample_externals \<lparr>bt_mesh = sample_mesh, mesh_idx = 0\<rparr>
        (empty_scene\<lparr>meshes := [sample_mesh\<lparr>bvh := Some 7\<rparr>]\<rparr>)
      = Inr (empty_scene\<lparr>meshes := [sample_mesh\<lparr>bvh := Some 7\<rparr>]\<rparr>)"
proof -
  have h: "build_mesh_bvh sample_externals (bt_mesh \<lparr>bt_mesh = sample_mesh, mesh_idx = 0\<rparr>) = None"
    by (simp add: sample_externals_def sample_mesh_def)
  show ?thesis
    using h bvh_build_failure_no_swap[OF h] by simp
qed

text \<open>For comparison, a build that succeeds swaps the pointer of the mesh at the task's index.\<close>

lemma bvh_build_success_swaps:
  assumes "build_mesh_bvh X (bt_mesh bt) = Some b" "in_bounds (mesh_idx bt) (meshes sc)"
  shows "\<exists>sc'. bvh_build_task X bt sc = Inr sc'
           \<and> bvh (meshes sc' ! unat (mesh_idx bt)) = Some b"
  using assms by (simp add: bvh_build_task_def in_bounds_def)

section \<open>Composing instance transforms\<close>

lemma transform_valid:
  assumes "in_bounds i (instances sc)" "length (instances sc) < 2 ^ 64"
  shows "cr_instance_transform X (Some sc) i rm =
     Inr (Some (sc\<lparr>instances := (instances sc)
        [unat i := (instances sc ! unat i)
            \<lparr>composite :=
               \<lparr>A = mat_mul X (A (composite (instances sc ! unat i))) (mtx_convert rm),
                Ainv = mat_invert X
                  (mat_mul X (A (composite (instances sc ! unat i))) (mtx_convert rm))\<rparr>\<rparr>],
         top_level_dirty := True\<rparr>))"
  using assms in_bounds_accepted[OF assms]
  by (simp add: cr_instance_transform_def Let_def)

text \<open>
  Claim C6. On a valid instance, \<open>cr_instance_transform\<close> with a matrix \<open>ma\<close> and then with a
  matrix \<open>mb\<close> leaves the forward matrix at (initial \<open>\<cdot>\<close> \<open>ma\<close>) \<open>\<cdot>\<close> \<open>mb\<close>, the product being the
  math library's \<open>mat_mul\<close>; after each call the stored inverse is \<open>mat_invert\<close> of the forward
  matrix just stored. Each call contains one assignment of \<open>true\<close> to the scene's dirty flag:
  the flag is set after the first call, and set again after the second whatever was done to
  the flag in between (for instance by a rebuild that cleared it).
\<close>

theorem transform_twice_composes:
  assumes "in_bounds i (instances sc)" "length (instances sc) < 2 ^ 64"
  shows "\<exists>sc1.
      cr_instance_transform X (Some sc) i ma = Inr (Some sc1)
    \<and> top_level_dirty sc1
    \<and> composite (instances sc1 ! unat i) =
        \<lparr>A = mat_mul X (A (composite (instances sc ! unat i))) (mtx_convert ma),
         Ainv = mat_invert X (mat_mul X (A (composite (instances sc ! unat i))) (mtx_convert ma))\<rparr>
    \<and> (\<forall>flag. \<exists>sc2.
          cr_instance_transform X (Some (sc1\<lparr>top_level_dirty := flag\<rparr>)) i mb = Inr (Some sc2)
        \<and> top_level_dirty sc2
        \<and> composite (instances sc2 ! unat i) =
            \<lparr>A = mat_mul X (mat_mul X (A (composite (instances sc ! unat i))) (mtx_convert ma))
                   (mtx_convert mb),
             Ainv = mat_invert X
                   (mat_mul X (mat_mul X (A (composite (instances sc ! unat i))) (mtx_convert ma))
                      (mtx_convert mb))\<rparr>)"
proof -
  let ?sc1 = "sc\<lparr>instances := (instances sc)
        [unat i := (instances sc ! unat i)
            \<lparr>composite :=
               \<lparr>A = mat_mul X (A (composite (instances sc ! unat i))) (mtx_convert ma),
                Ainv = mat_invert X
                  (mat_mul X (A (composite (instances sc ! unat i))) (mtx_convert ma))\<rparr>\<rparr>],
         top_level_dirty := True\<rparr>"
  have lt: "unat i < length (instances sc)"
    using assms(1) by (simp add: in_bounds_def)
  have 1: "cr_instance_transform X (Some sc) i ma = Inr (Some ?sc1)"
    by (rule transform_valid[OF assms])
  have 2: "\<And>flag. in_bounds i (instances (?sc1\<lparr>top_level_dirty := flag\<rparr>))"
    using assms(1) by (simp add: in_bounds_def)
  have 3: "\<And>flag. length (instances (?sc1\<lparr>top_level_dirty := flag\<rparr>)) < 2 ^ 64"
    using assms(2) by simp
  show ?thesis
    apply (rule exI[of _ ?sc1])
    apply (simp add: 1 lt)
    apply (rule allI)
    apply (subst transform_valid)
    using 2 3 lt by simp_all
qed

lemma mtx_convert_id [simp]: "mtx_convert m = m"
  by (cases m rule: mtx_convert.cases) simp

theorem transform_twice_composes_witness:
  "in_bounds 0 (instances (empty_scene\<lparr>instances := [sample_inst]\<rparr>))
   \<and> length (instances (empty_scene\<lparr>instances := [sample_inst]\<rparr>)) < 2 ^ 64
   \<and> (\<exists>sc1 sc2.
        cr_instance_transform sample_externals (Some (empty_scene\<lparr>instances := [sample_inst]\<rparr>)) 0
          (const_matrix 1) = Inr (Some sc1)
      \<and> top_level_dirty sc1
      \<and> composite (instances sc1 ! 0) = \<lparr>A = const_matrix 1, Ainv = const_matrix (- 1)\<rparr>
      \<and> cr_instance_transform sample_externals (Some (sc1\<lparr>top_level_dirty := False\<rparr>)) 0
          (const_matrix 2) = Inr (Some sc2)
      \<and> top_level_dirty sc2
      \<and> composite (instances sc2 ! 0) = \<lparr>A = const_matrix 3, Ainv = const_matrix (- 3)\<rparr>)"
proof -
  let ?sc = "empty_scene\<lparr>instances := [sample_inst]\<rparr>"
  have h1: "in_bounds 0 (instances ?sc)"
    by (simp add: in_bounds_def)
  have h2: "length (instances ?sc) < 2 ^ 64"
    by simp
  from transform_twice_composes[OF h1 h2, of sample_externals "const_matrix 1" "const_matrix 2"]
  obtain sc1 where
    a: "cr_instance_transform sample_externals (Some ?sc) 0 (const_matrix 1) = Inr (Some sc1)"
    and b: "top_level_dirty sc1"
    and c: "composite (instances sc1 ! unat (0::64 word)) =
        \<lparr>A = mat_mul sample_externals (A (composite (instances ?sc ! unat (0::64 word)))) (mtx_convert (const_matrix 1)),
         Ainv = mat_invert sample_externals (mat_mul sample_externals (A (composite (instances ?sc ! unat (0::64 word)))) (mtx_convert (const_matrix 1)))\<rparr>"
    and d: "\<forall>flag. \<exists>sc2.
          cr_instance_transform sample_externals (Some (sc1\<lparr>top_level_dirty := flag\<rparr>)) 0 (const_matrix 2) = Inr (Some sc2)
        \<and> top_level_dirty sc2
        \<and> composite (instances sc2 ! unat (0::64 word)) =
            \<lparr>A = mat_mul sample_externals (mat_mul sample_externals (A (composite (instances ?sc ! unat (0::64 word)))) (mtx_convert (const_matrix 1)))
                   (mtx_convert (const_matrix 2)),
             Ainv = mat_invert sample_externals
                   (mat_mul sample_externals (mat_mul sample_externals (A (composite (instances ?sc ! unat (0::64 word)))) (mtx_convert (const_matrix 1)))
                      (mtx_convert (const_matrix 2)))\<rparr>"
    by blast
  from d obtain sc2 where
    e: "cr_instance_transform sample_externals (Some (sc1\<lparr>top_level_dirty := False\<rparr>)) 0 (const_matrix 2) = Inr (Some sc2)"
    and f: "top_level_dirty sc2"
    and g: "composite (instances sc2 ! unat (0::64 word)) =
            \<lparr>A = mat_mul sample_externals (mat_mul sample_externals (A (composite (instances ?sc ! unat (0::64 word)))) (mtx_convert (const_matrix 1)))
                   (mtx_convert (const_matrix 2)),
             Ainv = mat_invert sample_externals
                   (mat_mul sample_externals (mat_mul sample_externals (A (composite (instances ?sc ! unat (0::64 word)))) (mtx_convert (const_matrix 1)))
                      (mtx_convert (const_matrix 2)))\<rparr>"
    by blast
  have c': "composite (instances sc1 ! 0) = \<lparr>A = const_matrix 1, Ainv = const_matrix (- 1)\<rparr>"
    using c by (simp add: sample_externals_def sample_inst_def const_matrix_def)
  have g': "composite (instances sc2 ! 0) = \<lparr>A = const_matrix 3, Ainv = const_matrix (- 3)\<rparr>"
    using g by (simp add: sample_externals_def sample_inst_def const_matrix_def)
  show ?thesis
    using h1 h2 a b c' e f g' by blast
qed

section \<open>The top-level dirty flag\<close>

lemma set_transform_valid:
  assumes "in_bounds i (instances sc)" "length (instances sc) < 2 ^ 64"
  shows "cr_instance_set_transform X (Some sc) i rm =
     (if A (composite (instances sc ! unat i)) = mtx_convert rm then Inr (Some sc)
      else Inr (Some (sc\<lparr>instances := (instances sc)
        [unat i := (instances sc ! unat i)
            \<lparr>composite := \<lparr>A = mtx_convert rm, Ainv = mat_invert X (mtx_convert rm)\<rparr>\<rparr>],
         top_level_dirty := True\<rparr>)))"
  using assms in_bounds_accepted[OF assms]
  by (simp add: cr_instance_set_transform_def Let_def del: mtx_convert_id mtx_convert.simps)

text \<open>
  Claim C7, as amended. An instance creation (\<open>cr_instance_new\<close> with kind mesh or sphere)
  and a \<open>cr_instance_transform\<close> on a valid instance leave the scene's top-level dirty flag
  set; so does a \<open>cr_instance_set_transform\<close> on a valid instance when the matrix differs
  from the instance's current forward matrix. In each case the top-level structure itself is
  the one the scene had: the call rebuilds nothing. A \<open>cr_instance_set_transform\<close> with the
  matrix the instance already has returns at its \<open>memcmp\<close> test and leaves the whole scene,
  the flag included, as it was.
\<close>

theorem dirty_after_instance_mutation:
  "(type = cr_object_mesh \<or> type = cr_object_sphere \<longrightarrow>
      (\<exists>idx sc'. cr_instance_new X (Some sc) object type = (idx, Some sc')
         \<and> length (instances sc') = Suc (length (instances sc))
         \<and> top_level_dirty sc' \<and> topLevel sc' = topLevel sc))
   \<and> (in_bounds i (instances sc) \<and> length (instances sc) < 2 ^ 64 \<longrightarrow>
        (\<exists>sc'. cr_instance_transform X (Some sc) i rm = Inr (Some sc')
           \<and> top_level_dirty sc' \<and> topLevel sc' = topLevel sc)
      \<and> (A (composite (instances sc ! unat i)) \<noteq> mtx_convert rm \<longrightarrow>
           (\<exists>sc'. cr_instance_set_transform X (Some sc) i rm = Inr (Some sc')
              \<and> top_level_dirty sc' \<and> topLevel sc' = topLevel sc))
      \<and> (A (composite (instances sc ! unat i)) = mtx_convert rm \<longrightarrow>
           cr_instance_set_transform X (Some sc) i rm = Inr (Some sc)))"
proof (intro conjI impI)
  assume "type = cr_object_mesh \<or> type = cr_object_sphere"
  then show "\<exists>idx sc'. cr_instance_new X (Some sc) object type = (idx, Some sc')
         \<and> length (instances sc') = Suc (length (instances sc))
         \<and> top_level_dirty sc' \<and> topLevel sc' = topLevel sc"
    by (auto simp: cr_instance_new_def arr_add_def)
next
  assume v: "in_bounds i (instances sc) \<and> length (instances sc) < 2 ^ 64"
  then show "\<exists>sc'. cr_instance_transform X (Some sc) i rm = Inr (Some sc')
           \<and> top_level_dirty sc' \<and> topLevel sc' = topLevel sc"
    by (simp add: transform_valid)
  {
    assume "A (composite (instances sc ! unat i)) \<noteq> mtx_convert rm"
    then show "\<exists>sc'. cr_instance_set_transform X (Some sc) i rm = Inr (Some sc')
              \<and> top_level_dirty sc' \<and> topLevel sc' = topLevel sc"
      using v by (simp add: set_transform_valid)
  }
  {
    assume "A (composite (instances sc ! unat i)) = mtx_convert rm"
    then show "cr_instance_set_transform X (Some sc) i rm = Inr (Some sc)"
      using v by (simp add: set_transform_valid)
  }
qed

text \<open>
  The claim as stated fails: setting the transform an instance already has, on a scene whose
  flag is clear, leaves the flag clear.
\<close>

theorem set_transform_same_matrix_flag_clear:
  "in_bounds 0 (instances (empty_scene\<lparr>instances := [sample_inst]\<rparr>))
   \<and> cr_instance_set_transform sample_externals
        (Some (empty_scene\<lparr>instances := [sample_inst]\<rparr>)) 0 (const_matrix 0)
      = Inr (Some (empty_scene\<lparr>instances := [sample_inst]\<rparr>))
   \<and> \<not> top_level_dirty (empty_scene\<lparr>instances := [sample_inst]\<rparr>)"
  by (simp add: in_bounds_def cr_instance_set_transform_def idx_rejected_def arr_count_def
      sample_inst_def empty_scene_def const_matrix_def Let_def)

theorem dirty_after_instance_mutation_witness:
  "(\<exists>idx sc'. cr_instance_new sample_externals (Some (empty_scene\<lparr>instances := [sample_inst]\<rparr>))
        0 cr_object_mesh = (idx, Some sc')
      \<and> length (instances sc') = Suc (length (instances (empty_scene\<lparr>instances := [sample_inst]\<rparr>)))
      \<and> top_level_dirty sc' \<and> topLevel sc' = topLevel (empty_scene\<lparr>instances := [sample_inst]\<rparr>))
   \<and> in_bounds 0 (instances (empty_scene\<lparr>instances := [sample_inst]\<rparr>))
   \<and> length (instances (empty_scene\<lparr>instances := [sample_inst]\<rparr>)) < 2 ^ 64
   \<and> (\<exists>sc'. cr_instance_transform sample_externals
         (Some (empty_scene\<lparr>instances := [sample_inst]\<rparr>)) 0 (const_matrix 1) = Inr (Some sc')
      \<and> top_level_dirty sc' \<and> topLevel sc' = topLevel (empty_scene\<lparr>instances := [sample_inst]\<rparr>))
   \<and> A (composite (instances (empty_scene\<lparr>instances := [sample_inst]\<rparr>) ! unat (0 :: 64 word)))
        \<noteq> mtx_convert (const_matrix 1)
   \<and> (\<exists>sc'. cr_instance_set_transform sample_externals
         (Some (empty_scene\<lparr>instances := [sample_inst]\<rparr>)) 0 (const_matrix 1) = Inr (Some sc')
      \<and> top_level_dirty sc' \<and> topLevel sc' = topLevel (empty_scene\<lparr>instances := [sample_inst]\<rparr>))"
proof -
  let ?sc = "empty_scene\<lparr>instances := [sample_inst]\<rparr>"
  have h1: "in_bounds 0 (instances ?sc)"
    by (simp add: in_bounds_def)
  have h2: "length (instances ?sc) < 2 ^ 64"
    by simp
  have h3: "A (composite (instances ?sc ! unat (0 :: 64 word))) \<noteq> mtx_convert (const_matrix 1)"
    by (simp add: sample_inst_def const_matrix_def)
  show ?thesis
    using dirty_after_instance_mutation
      [of cr_object_mesh sample_externals ?sc 0 0 "const_matrix 1"] h1 h2 h3
    by blast
qed

section \<open>Binding mesh buffers\<close>

lemma read_n_whole:
  assumes "length arr < 2 ^ 64"
  shows "read_n (Some arr) (arr_count arr) = Inr arr"
proof -
  have u: "unat (arr_count arr) = length arr"
    using assms by (rule unat_arr_count)
  show ?thesis
  proof (cases "arr_count arr = 0")
    case True
    then have "length arr = 0"
      using u by simp
    then show ?thesis
      using True by (simp add: read_n_def)
  next
    case False
    then show ?thesis
      using u by (simp add: read_n_def)
  qed
qed

lemma bind_vertex_buf_replaces:
  assumes "in_bounds m (meshes sc)" "length (meshes sc) < 2 ^ 64"
    and "length vs < 2 ^ 64" "length ns < 2 ^ 64" "length ts < 2 ^ 64"
  shows "\<exists>sc'. cr_mesh_bind_vertex_buf (Some sc) m
            \<lparr>cr_vertex_buf_param.vertices = Some vs, vertex_count = arr_count vs,
             cr_vertex_buf_param.normals = Some ns, normal_count = arr_count ns,
             tex_coords = Some ts, tex_coord_count = arr_count ts\<rparr> = Inr (Some sc')
          \<and> vbuf (meshes sc' ! unat m) =
              \<lparr>vertex_buffer.vertices = vs, vertex_buffer.normals = ns, texture_coords = ts\<rparr>"
  using assms in_bounds_accepted[OF assms(1,2)]
  by (simp add: cr_mesh_bind_vertex_buf_def read_n_whole in_bounds_def)

lemma bind_faces_appends:
  assumes "in_bounds m (meshes sc)" "length (meshes sc) < 2 ^ 64" "length fs < 2 ^ 64"
  shows "\<exists>sc'. cr_mesh_bind_faces (Some sc) m (Some fs) (arr_count fs) = Inr (Some sc')
          \<and> polygons (meshes sc' ! unat m) = polygons (meshes sc ! unat m) @ fs"
  using assms in_bounds_accepted[OF assms(1,2)] unat_arr_count[OF assms(3)]
  by (simp add: cr_mesh_bind_faces_def in_bounds_def)

text \<open>
  Claim C2, at a failing input. A mesh that already has one polygon is bound to a face array
  of one other face: the polygon list afterwards holds both, the old one first. The bind
  appended; the claim says the list equals the array passed.
\<close>

theorem bind_faces_keeps_old_polygons:
  "cr_mesh_bind_faces (Some (empty_scene\<lparr>meshes := [sample_mesh\<lparr>polygons := [sample_face 1]\<rparr>]\<rparr>))
      0 (Some [sample_face 2]) 1
   = Inr (Some (empty_scene
        \<lparr>meshes := [sample_mesh\<lparr>polygons := [sample_face 1, sample_face 2]\<rparr>]\<rparr>))"
  by (simp add: cr_mesh_bind_faces_def idx_rejected_def arr_count_def in_bounds_def)

section \<open>Indices into an empty array\<close>

text \<open>
  Claim C3, at a failing input. In a scene with no mesh, no instance and no camera, index 0
  is out of range for each of the three arrays. The guard \<open>(size_t)i > count - 1\<close> compares
  with \<open>0 - 1\<close>, the largest \<open>size_t\<close>, and lets the index through; the operation then
  addresses element 0 of an array that has none.
\<close>

theorem empty_array_index_not_rejected:
  "cr_mesh_bind_vertex_buf (Some empty_scene) 0 buf = Inl OutOfBounds
   \<and> cr_instance_set_transform X (Some empty_scene) 0 rm = Inl OutOfBounds
   \<and> cr_camera_set_num_pref X (Some empty_scene) 0 p num = Inl OutOfBounds"
  by (simp add: cr_mesh_bind_vertex_buf_def cr_instance_set_transform_def
      cr_camera_set_num_pref_def idx_rejected_empty not_in_bounds_empty empty_scene_def)

text \<open>On an array that is not empty the guards do reject every index outside it.\<close>

lemma out_of_range_rejected:
  assumes "\<not> in_bounds i (meshes sc)" "0 < length (meshes sc)" "length (meshes sc) < 2 ^ 64"
  shows "cr_mesh_bind_vertex_buf (Some sc) i buf = Inr (Some sc)"
  using assms idx_rejected_iff[of "meshes sc" i]
  by (simp add: cr_mesh_bind_vertex_buf_def)

lemma out_of_range_instance_rejected:
  assumes "\<not> in_bounds i (instances sc)" "0 < length (instances sc)"
    "length (instances sc) < 2 ^ 64"
  shows "cr_instance_set_transform X (Some sc) i rm = Inr (Some sc)"
  using assms idx_rejected_iff[of "instances sc" i]
  by (simp add: cr_instance_set_transform_def)

lemma out_of_range_camera_rejected:
  assumes "\<not> in_bounds c (cameras sc)" "0 < length (cameras sc)" "length (cameras sc) < 2 ^ 64"
  shows "cr_camera_set_num_pref X (Some sc) c p num = Inr (False, Some sc)"
  using assms idx_rejected_iff[of "cameras sc" c]
  by (simp add: cr_camera_set_num_pref_def)

section \<open>The bounce preference\<close>

text \<open>
  Claim C8. Setting the bounce preference to a value above 512 returns \<open>false\<close> and leaves
  the renderer, its bounce preference included, as it was; a value up to and including 512
  returns \<open>true\<close> and is the bounce preference afterwards, nothing else being changed.
\<close>

theorem bounces_capped_at_512:
  "(num > 512 \<longrightarrow> cr_renderer_set_num_pref (Some r) cr_renderer_bounces num = (False, Some r))
   \<and> (num \<le> 512 \<longrightarrow>
        cr_renderer_set_num_pref (Some r) cr_renderer_bounces num
          = (True, Some (r\<lparr>prefs := (prefs r)\<lparr>bounces := num\<rparr>\<rparr>))
        \<and> cr_renderer_get_num_pref (Some (r\<lparr>prefs := (prefs r)\<lparr>bounces := num\<rparr>\<rparr>))
            cr_renderer_bounces = num)"
  by (auto simp: cr_renderer_set_num_pref_def cr_renderer_get_num_pref_def)

theorem bounces_capped_at_512_witness:
  "(513 :: 64 word) > 512
   \<and> cr_renderer_set_num_pref (Some sample_renderer) cr_renderer_bounces 513
       = (False, Some sample_renderer)
   \<and> bounces (prefs sample_renderer) = 30
   \<and> (512 :: 64 word) \<le> 512
   \<and> cr_renderer_set_num_pref (Some sample_renderer) cr_renderer_bounces 512
       = (True, Some (sample_renderer\<lparr>prefs := (prefs sample_renderer)\<lparr>bounces := 512\<rparr>\<rparr>))"
  using bounces_capped_at_512[of 513 sample_renderer] bounces_capped_at_512[of 512 sample_renderer]
  by (simp add: sample_renderer_def)

section \<open>Pausing twice\<close>

lemma for_workers_nth:
  "n \<le> length ws \<Longrightarrow>
     \<exists>ws'. for_workers f n i ws = Inr ws' \<and> length ws' = length ws
       \<and> (\<forall>j<length ws. ws' ! j = (if i \<le> j \<and> j < n then f (ws ! j) else ws ! j))"
proof (induction f n i ws rule: for_workers.induct)
  case (1 f n i ws)
  show ?case
  proof (cases "i < n")
    case True
    then have il: "i < length ws"
      using "1.prems" by simp
    have "n \<le> length (ws[i := f (ws ! i)])"
      using "1.prems" by simp
    from "1.IH"[OF True il this] obtain ws' where
      r: "for_workers f n (Suc i) (ws[i := f (ws ! i)]) = Inr ws'"
      and l: "length ws' = length ws"
      and e: "\<forall>j<length ws. ws' ! j =
                (if Suc i \<le> j \<and> j < n then f (ws[i := f (ws ! i)] ! j)
                 else ws[i := f (ws ! i)] ! j)"
      by auto
    have "for_workers f n i ws = Inr ws'"
      using True il r by (subst for_workers.simps) simp
    moreover have "\<forall>j<length ws. ws' ! j = (if i \<le> j \<and> j < n then f (ws ! j) else ws ! j)"
    proof (intro allI impI)
      fix j
      assume jl: "j < length ws"
      show "ws' ! j = (if i \<le> j \<and> j < n then f (ws ! j) else ws ! j)"
      proof (cases "j = i")
        case True
        then show ?thesis
          using e jl \<open>i < n\<close> by simp
      next
        case False
        then show ?thesis
          using e jl by auto
      qed
    qed
    ultimately show ?thesis
      using l by blast
  next
    case False
    then have "for_workers f n i ws = Inr ws"
      by (subst for_workers.simps) simp
    moreover have "\<forall>j<length ws. ws ! j = (if i \<le> j \<and> j < n then f (ws ! j) else ws ! j)"
      using False by auto
    ultimately show ?thesis
      by blast
  qed
qed

lemma for_workers_overrun:
  "i \<le> length ws \<Longrightarrow> length ws < n \<Longrightarrow> for_workers f n i ws = Inl OutOfBounds"
proof (induction f n i ws rule: for_workers.induct)
  case (1 f n i ws)
  show ?case
  proof (cases "i < length ws")
    case True
    then have "for_workers f n (Suc i) (ws[i := f (ws ! i)]) = Inl OutOfBounds"
      using "1.IH" "1.prems" by simp
    then show ?thesis
      using True "1.prems" by (subst for_workers.simps) simp
  next
    case False
    then show ?thesis
      using "1.prems" by (subst for_workers.simps) simp
  qed
qed

text \<open>With fewer workers than \<open>prefs.threads\<close> the loop runs off the worker array.\<close>

lemma toggle_pause_overrun:
  assumes "length (workers (state r)) < unat (threads (prefs r))"
  shows "cr_renderer_toggle_pause (Some r) = Inl OutOfBounds"
proof -
  have "for_workers (\<lambda>w. w\<lparr>paused := \<not> paused w\<rparr>) (unat (threads (prefs r))) 0
          (workers (state r)) = Inl OutOfBounds"
    using assms by (intro for_workers_overrun) simp_all
  then show ?thesis
    by (simp add: cr_renderer_toggle_pause_def toggle_pause_workers_def)
qed

lemma toggle_pause_workers_ok:
  assumes "unat (threads (prefs r)) \<le> length (workers (state r))"
  shows "\<exists>ws1. toggle_pause_workers r = Inr (r\<lparr>state := (state r)\<lparr>workers := ws1\<rparr>\<rparr>)
     \<and> length ws1 = length (workers (state r))
     \<and> (\<forall>i<length (workers (state r)).
           ws1 ! i = (if i < unat (threads (prefs r))
                      then (workers (state r) ! i)\<lparr>paused := \<not> paused (workers (state r) ! i)\<rparr>
                      else workers (state r) ! i))"
proof -
  from for_workers_nth[OF assms, of "\<lambda>w. w\<lparr>paused := \<not> paused w\<rparr>" 0]
  obtain ws' where
    r: "for_workers (\<lambda>w. w\<lparr>paused := \<not> paused w\<rparr>) (unat (threads (prefs r))) 0
          (workers (state r)) = Inr ws'"
    and l: "length ws' = length (workers (state r))"
    and e: "\<forall>j<length (workers (state r)). ws' ! j =
              (if 0 \<le> j \<and> j < unat (threads (prefs r))
               then (workers (state r) ! j)\<lparr>paused := \<not> paused (workers (state r) ! j)\<rparr>
               else workers (state r) ! j)"
    by blast
  have "toggle_pause_workers r = Inr (r\<lparr>state := (state r)\<lparr>workers := ws'\<rparr>\<rparr>)"
    using r by (simp add: toggle_pause_workers_def)
  then show ?thesis
    using l e by auto
qed

text \<open>
  Where the worker array holds the \<open>prefs.threads\<close> local threads, the loop of
  \<open>cr_renderer_toggle_pause\<close> stays inside the array. The first call then returns the
  renderer with nothing changed but the \<open>paused\<close> flag of the workers below
  \<open>prefs.threads\<close>, each flipped: the acknowledgement flags and sample counters, the workers
  from \<open>prefs.threads\<close> on, the network clients and every other field are as before. The
  second call returns the renderer exactly as it was before the first.
\<close>

theorem toggle_pause_twice:
  assumes "unat (threads (prefs r)) \<le> length (workers (state r))"
  shows "\<exists>ws1.
       cr_renderer_toggle_pause (Some r) = Inr (Some (r\<lparr>state := (state r)\<lparr>workers := ws1\<rparr>\<rparr>))
     \<and> length ws1 = length (workers (state r))
     \<and> (\<forall>i<length (workers (state r)).
           ws1 ! i = (if i < unat (threads (prefs r))
                      then (workers (state r) ! i)\<lparr>paused := \<not> paused (workers (state r) ! i)\<rparr>
                      else workers (state r) ! i))
     \<and> cr_renderer_toggle_pause (Some (r\<lparr>state := (state r)\<lparr>workers := ws1\<rparr>\<rparr>)) = Inr (Some r)"
proof -
  let ?ws = "workers (state r)"
  let ?n = "unat (threads (prefs r))"
  from toggle_pause_workers_ok[OF assms] obtain ws1 where
    a: "toggle_pause_workers r = Inr (r\<lparr>state := (state r)\<lparr>workers := ws1\<rparr>\<rparr>)"
    and l: "length ws1 = length ?ws"
    and e: "\<forall>i<length ?ws. ws1 ! i =
              (if i < ?n then (?ws ! i)\<lparr>paused := \<not> paused (?ws ! i)\<rparr> else ?ws ! i)"
    by blast
  let ?r1 = "r\<lparr>state := (state r)\<lparr>workers := ws1\<rparr>\<rparr>"
  have "unat (threads (prefs ?r1)) \<le> length (workers (state ?r1))"
    using assms l by simp
  from toggle_pause_workers_ok[OF this] obtain ws2 where
    b: "toggle_pause_workers ?r1 = Inr (?r1\<lparr>state := (state ?r1)\<lparr>workers := ws2\<rparr>\<rparr>)"
    and l2: "length ws2 = length ws1"
    and e2: "\<forall>i<length ws1. ws2 ! i =
              (if i < ?n then (ws1 ! i)\<lparr>paused := \<not> paused (ws1 ! i)\<rparr> else ws1 ! i)"
    by auto
  have "ws2 = ?ws"
  proof (rule nth_equalityI)
    show "length ws2 = length ?ws"
      using l l2 by simp
  next
    fix i
    assume "i < length ws2"
    then have il: "i < length ?ws" "i < length ws1"
      using l l2 by simp_all
    show "ws2 ! i = ?ws ! i"
      using e2[rule_format, OF il(2)] e[rule_format, OF il(1)] by simp
  qed
  then have "toggle_pause_workers ?r1 = Inr r"
    using b by simp
  then show ?thesis
    using a l e by (auto simp: cr_renderer_toggle_pause_def)
qed

theorem toggle_pause_twice_witness:
  "unat (threads (prefs sample_renderer)) \<le> length (workers (state sample_renderer))
   \<and> (\<exists>ws1.
       cr_renderer_toggle_pause (Some sample_renderer)
         = Inr (Some (sample_renderer\<lparr>state := (state sample_renderer)\<lparr>workers := ws1\<rparr>\<rparr>))
     \<and> length ws1 = 2
     \<and> ws1 ! 0 = sample_worker\<lparr>paused := True\<rparr>
     \<and> ws1 ! 1 = sample_worker\<lparr>paused := False\<rparr>
     \<and> cr_renderer_toggle_pause
         (Some (sample_renderer\<lparr>state := (state sample_renderer)\<lparr>workers := ws1\<rparr>\<rparr>))
         = Inr (Some sample_renderer))"
proof -
  have h: "unat (threads (prefs sample_renderer)) \<le> length (workers (state sample_renderer))"
    by (simp add: sample_renderer_def)
  from toggle_pause_twice[OF h] obtain ws1 where
    a: "cr_renderer_toggle_pause (Some sample_renderer)
         = Inr (Some (sample_renderer\<lparr>state := (state sample_renderer)\<lparr>workers := ws1\<rparr>\<rparr>))"
    and l: "length ws1 = length (workers (state sample_renderer))"
    and e: "\<forall>i<length (workers (state sample_renderer)).
           ws1 ! i = (if i < unat (threads (prefs sample_renderer))
                      then (workers (state sample_renderer) ! i)
                             \<lparr>paused := \<not> paused (workers (state sample_renderer) ! i)\<rparr>
                      else workers (state sample_renderer) ! i)"
    and b: "cr_renderer_toggle_pause
         (Some (sample_renderer\<lparr>state := (state sample_renderer)\<lparr>workers := ws1\<rparr>\<rparr>))
         = Inr (Some sample_renderer)"
    by blast
  have l': "length ws1 = 2"
    using l by (simp add: sample_renderer_def)
  have e0: "ws1 ! 0 = sample_worker\<lparr>paused := True\<rparr>"
    using e[rule_format, of 0] by (simp add: sample_renderer_def sample_worker_def)
  have e1: "ws1 ! 1 = sample_worker\<lparr>paused := False\<rparr>"
    using e[rule_format, of 1] by (simp add: sample_renderer_def sample_worker_def)
  show ?thesis
    using h a l' e0 e1 b by blast
qed

section \<open>Quiescence before a resize\<close>

lemma wait_done: "n \<le> i \<Longrightarrow> wait_for_acks n i k env = ([], Acked)"
  by (subst wait_for_acks.simps) simp

lemma wait_nil: "\<not> n \<le> i \<Longrightarrow> wait_for_acks n i k [] = ([], Still_waiting)"
  by (subst wait_for_acks.simps) simp

lemma wait_ack:
  "\<not> n \<le> i \<Longrightarrow> obs_in_pause_loop e i \<Longrightarrow>
     wait_for_acks n i k (e # env1) =
       (Ev_observed_in_pause_loop i k # fst (wait_for_acks n (Suc i) (Suc k) env1),
        snd (wait_for_acks n (Suc i) (Suc k) env1))"
  by (subst wait_for_acks.simps) (simp add: case_prod_beta)

lemma wait_last: "\<not> n \<le> i \<Longrightarrow> \<not> obs_in_pause_loop e i \<Longrightarrow>
     wait_for_acks n i k [e] = ([], Still_waiting)"
  by (subst wait_for_acks.simps) simp

lemma wait_stopped:
  "\<not> n \<le> i \<Longrightarrow> \<not> obs_in_pause_loop e i \<Longrightarrow> obs_s e2 \<noteq> r_rendering \<Longrightarrow>
     wait_for_acks n i k (e # e2 # env2) = ([], Stopped)"
  by (subst wait_for_acks.simps) simp

lemma wait_again:
  "\<not> n \<le> i \<Longrightarrow> \<not> obs_in_pause_loop e i \<Longrightarrow> obs_s e2 = r_rendering \<Longrightarrow>
     wait_for_acks n i k (e # e2 # env2) = wait_for_acks n i (Suc (Suc k)) env2"
  by (subst wait_for_acks.simps) simp

text \<open>The wait loop makes no structural mutation.\<close>

lemma wait_for_acks_not_structural:
  "ev \<in> set (fst (wait_for_acks n i k env)) \<Longrightarrow> \<not> structural ev"
proof (induction n i k env rule: wait_for_acks.induct)
  case (1 n i k env)
  show ?case
  proof (cases "n \<le> i")
    case True
    then show ?thesis
      using "1.prems" by (simp add: wait_done)
  next
    case False
    show ?thesis
    proof (cases env)
      case Nil
      then show ?thesis
        using False "1.prems" by (simp add: wait_nil)
    next
      case (Cons e env1)
      show ?thesis
      proof (cases "obs_in_pause_loop e i")
        case True
        then have "ev = Ev_observed_in_pause_loop i k
            \<or> ev \<in> set (fst (wait_for_acks n (Suc i) (Suc k) env1))"
          using False Cons "1.prems" by (simp add: wait_ack)
        then show ?thesis
          using "1.IH"(1)[OF False Cons True] by auto
      next
        case nack: False
        show ?thesis
        proof (cases env1)
          case Nil
          then show ?thesis
            using False Cons nack "1.prems" by (simp add: wait_last)
        next
          case c2: (Cons e2 env2)
          show ?thesis
          proof (cases "obs_s e2 = r_rendering")
            case True
            then have "ev \<in> set (fst (wait_for_acks n i (Suc (Suc k)) env2))"
              using False Cons nack c2 "1.prems" by (simp add: wait_again)
            then show ?thesis
              using "1.IH"(2)[OF False Cons nack c2] True by simp
          next
            case stop: False
            then show ?thesis
              using False Cons nack c2 "1.prems" by (simp add: wait_stopped)
          qed
        qed
      qed
    qed
  qed
qed

text \<open>
  Every \<open>Ev_observed_in_pause_loop j p\<close> of the wait loop is a read it made: \<open>p\<close> is the
  position of an observation of the list, and in that observation worker \<open>j\<close>'s flag is set.
\<close>

lemma wait_for_acks_grounded:
  "Ev_observed_in_pause_loop j p \<in> set (fst (wait_for_acks n i k env)) \<Longrightarrow>
     k \<le> p \<and> p - k < length env \<and> obs_in_pause_loop (env ! (p - k)) j"
proof (induction n i k env rule: wait_for_acks.induct)
  case (1 n i k env)
  show ?case
  proof (cases "n \<le> i")
    case True
    then show ?thesis
      using "1.prems" by (simp add: wait_done)
  next
    case False
    show ?thesis
    proof (cases env)
      case Nil
      then show ?thesis
        using False "1.prems" by (simp add: wait_nil)
    next
      case (Cons e env1)
      show ?thesis
      proof (cases "obs_in_pause_loop e i")
        case True
        then consider "j = i" "p = k"
          | "Ev_observed_in_pause_loop j p \<in> set (fst (wait_for_acks n (Suc i) (Suc k) env1))"
          using False Cons "1.prems" by (auto simp: wait_ack)
        then show ?thesis
        proof cases
          case 1
          then show ?thesis
            using True Cons by simp
        next
          case 2
          from "1.IH"(1)[OF False Cons True 2]
          have "Suc k \<le> p" "p - Suc k < length env1" "obs_in_pause_loop (env1 ! (p - Suc k)) j"
            by simp_all
          moreover have "p - k = Suc (p - Suc k)"
            using \<open>Suc k \<le> p\<close> by simp
          ultimately show ?thesis
            using Cons by simp
        qed
      next
        case nack: False
        show ?thesis
        proof (cases env1)
          case Nil
          then show ?thesis
            using False Cons nack "1.prems" by (simp add: wait_last)
        next
          case c2: (Cons e2 env2)
          show ?thesis
          proof (cases "obs_s e2 = r_rendering")
            case True
            then have "Ev_observed_in_pause_loop j p
                \<in> set (fst (wait_for_acks n i (Suc (Suc k)) env2))"
              using False Cons nack c2 "1.prems" by (simp add: wait_again)
            from "1.IH"(2)[OF False Cons nack c2 _ this] True
            have "Suc (Suc k) \<le> p" "p - Suc (Suc k) < length env2"
              "obs_in_pause_loop (env2 ! (p - Suc (Suc k))) j"
              by simp_all
            moreover have "p - k = Suc (Suc (p - Suc (Suc k)))"
              using \<open>Suc (Suc k) \<le> p\<close> by simp
            ultimately show ?thesis
              using Cons c2 by simp
          next
            case stop: False
            then show ?thesis
              using False Cons nack c2 "1.prems" by (simp add: wait_stopped)
          qed
        qed
      qed
    qed
  qed
qed

text \<open>A wait loop that ran to its end read the flag of every worker from \<open>i\<close> on as set.\<close>

lemma wait_for_acks_all_observed:
  "snd (wait_for_acks n i k env) = Acked \<Longrightarrow> i \<le> j \<Longrightarrow> j < n \<Longrightarrow>
     \<exists>p. Ev_observed_in_pause_loop j p \<in> set (fst (wait_for_acks n i k env))"
proof (induction n i k env rule: wait_for_acks.induct)
  case (1 n i k env)
  have False: "\<not> n \<le> i"
    using "1.prems" by simp
  show ?case
  proof (cases env)
    case Nil
    then show ?thesis
      using False "1.prems" by (simp add: wait_nil)
  next
    case (Cons e env1)
    show ?thesis
    proof (cases "obs_in_pause_loop e i")
      case True
      have a: "snd (wait_for_acks n (Suc i) (Suc k) env1) = Acked"
        using False Cons True "1.prems"(1) by (simp add: wait_ack)
      show ?thesis
      proof (cases "j = i")
        case same: True
        then show ?thesis
          using False Cons True by (auto simp: wait_ack)
      next
        case ne: False
        then have "Suc i \<le> j"
          using "1.prems"(2) by simp
        then have "\<exists>p. Ev_observed_in_pause_loop j p
            \<in> set (fst (wait_for_acks n (Suc i) (Suc k) env1))"
          using "1.IH"(1)[OF False Cons True a] "1.prems"(3) by simp
        then show ?thesis
          using False Cons True by (auto simp: wait_ack)
      qed
    next
      case nack: False
      show ?thesis
      proof (cases env1)
        case Nil
        then show ?thesis
          using False Cons nack "1.prems" by (simp add: wait_last)
      next
        case c2: (Cons e2 env2)
        show ?thesis
        proof (cases "obs_s e2 = r_rendering")
          case True
          then have "snd (wait_for_acks n i (Suc (Suc k)) env2) = Acked"
            using False Cons nack c2 "1.prems"(1) by (simp add: wait_again)
          then have "\<exists>p. Ev_observed_in_pause_loop j p
              \<in> set (fst (wait_for_acks n i (Suc (Suc k)) env2))"
            using "1.IH"(2)[OF False Cons nack c2] True "1.prems"(2,3) by simp
          then show ?thesis
            using False Cons nack c2 True by (simp add: wait_again)
        next
          case stop: False
          then show ?thesis
            using False Cons nack c2 "1.prems" by (simp add: wait_stopped)
        qed
      qed
    qed
  qed
qed

lemma structural_after_prefix:
  assumes "xs @ ys = pre @ ev # post" "structural ev" "\<forall>x\<in>set xs. \<not> structural x"
  shows "set xs \<subseteq> set pre"
proof -
  from assms(1) obtain us where "(xs = pre @ us \<and> us @ ys = ev # post) \<or> (xs @ us = pre \<and> ys = us @ ev # post)"
    unfolding append_eq_append_conv2 by blast
  then consider us where "pre = xs @ us" | us where "xs = pre @ ev # us" | "xs = pre"
    by (cases us) auto
  then show ?thesis
  proof cases
    case 1
    then show ?thesis by simp
  next
    case 2
    then have "ev \<in> set xs" by simp
    then show ?thesis using assms(2,3) by blast
  next
    case 3
    then show ?thesis by simp
  qed
qed

lemma restart_tail_not_structural:
  "restart_tail X r rb cs = (tr, out) \<Longrightarrow> ev \<in> set tr \<Longrightarrow> \<not> structural ev"
  by (auto simp: restart_tail_def split: sum.splits)

lemma toggle_pause_workers_length:
  assumes "toggle_pause_workers r = Inr r2"
  shows "length (workers (state r2)) = length (workers (state r))"
proof (cases "unat (threads (prefs r)) \<le> length (workers (state r))")
  case True
  from toggle_pause_workers_ok[OF True] assms show ?thesis
    by auto
next
  case False
  then have "for_workers (\<lambda>w. w\<lparr>paused := \<not> paused w\<rparr>) (unat (threads (prefs r))) 0
          (workers (state r)) = Inl OutOfBounds"
    by (intro for_workers_overrun) simp_all
  then show ?thesis
    using assms by (simp add: toggle_pause_workers_def)
qed

lemma restart_resize_trace:
  assumes "fst (restart_resize X env r sel cam cs) = tr"
  shows "(\<forall>ev\<in>set tr. \<not> structural ev)
       \<or> (\<exists>r2 rest. toggle_pause_workers
              (r\<lparr>scene := (scene r)\<lparr>cameras := (cameras (scene r))[sel := cam_recompute_optics X cam]\<rparr>\<rparr>)
              = Inr r2
            \<and> snd (wait_for_acks (unat (arr_count (workers (state r2)))) 0 0 env) = Acked
            \<and> tr = ([Ev_recompute_optics, Ev_toggle_pause]
                     @ fst (wait_for_acks (unat (arr_count (workers (state r2)))) 0 0 env)) @ rest)"
proof (cases "toggle_pause_workers
              (r\<lparr>scene := (scene r)\<lparr>cameras := (cameras (scene r))[sel := cam_recompute_optics X cam]\<rparr>\<rparr>)")
  case (Inl e)
  then have "tr = [Ev_recompute_optics]"
    using assms by (simp add: restart_resize_def Let_def)
  then show ?thesis by simp
next
  case (Inr r2)
  obtain tw w where ww: "wait_for_acks (unat (arr_count (workers (state r2)))) 0 0 env = (tw, w)"
    by (cases "wait_for_acks (unat (arr_count (workers (state r2)))) 0 0 env")
  have tw: "\<forall>ev\<in>set tw. \<not> structural ev"
    using wait_for_acks_not_structural[of _ "unat (arr_count (workers (state r2)))" 0 0 env] ww
    by auto
  show ?thesis
  proof (cases w)
    case Acked
    have "\<exists>rest. tr = ([Ev_recompute_optics, Ev_toggle_pause] @ tw) @ rest"
      using assms Inr ww Acked
      by (auto simp: restart_resize_def Let_def split: sum.splits prod.splits)
    then show ?thesis
      using Inr ww Acked by auto
  next
    case Stopped
    have "tr = [Ev_recompute_optics, Ev_toggle_pause] @ tw
        \<or> tr = [Ev_recompute_optics, Ev_toggle_pause] @ tw @ [Ev_toggle_pause]"
      using assms Inr ww Stopped
      by (auto simp: restart_resize_def Let_def split: sum.splits)
    then show ?thesis
      using tw by auto
  next
    case Still_waiting
    have "tr = [Ev_recompute_optics, Ev_toggle_pause] @ tw"
      using assms Inr ww Still_waiting
      by (auto simp: restart_resize_def Let_def)
    then show ?thesis
      using tw by auto
  qed
qed

lemma restart_trace:
  assumes "fst (cr_renderer_restart_interactive X env (Some r)) = tr"
  shows "(\<forall>ev\<in>set tr. \<not> structural ev)
       \<or> (\<exists>r1 r2 rest. toggle_pause_workers r1 = Inr r2
            \<and> workers (state r1) = workers (state r)
            \<and> snd (wait_for_acks (unat (arr_count (workers (state r2)))) 0 0 env) = Acked
            \<and> tr = ([Ev_recompute_optics, Ev_toggle_pause]
                     @ fst (wait_for_acks (unat (arr_count (workers (state r2)))) 0 0 env)) @ rest)"
proof (cases "iterative (prefs r) \<and> arr_count (workers (state r)) \<noteq> 0
          \<and> result_buf (state r) \<noteq> None \<and> current_set (state r) \<noteq> None
          \<and> in_bounds (selected_camera (prefs r)) (cameras (scene r))")
  case False
  then have "tr = []"
    using assms by (auto simp: cr_renderer_restart_interactive_def split: option.splits)
  then show ?thesis by simp
next
  case True
  then obtain rb cs where rb: "result_buf (state r) = Some rb" and cs: "current_set (state r) = Some cs"
    by auto
  let ?sel = "unat (selected_camera (prefs r))"
  let ?cam = "cameras (scene r) ! ?sel"
  show ?thesis
  proof (cases "tex_width rb \<noteq> scast (width ?cam) \<or> tex_height rb \<noteq> scast (height ?cam)")
    case resize: True
    have "fst (restart_resize X env r ?sel ?cam cs) = tr"
      using assms True rb cs resize
      by (simp add: cr_renderer_restart_interactive_def Let_def)
    from restart_resize_trace[OF this] show ?thesis
      by (elim disjE exE conjE) (simp, rule disjI2, fastforce)
  next
    case same: False
    have "fst (restart_tail X r rb cs) = tr"
      using assms True rb cs same
      by (simp add: cr_renderer_restart_interactive_def Let_def)
    then show ?thesis
      using restart_tail_not_structural[of X r rb cs tr "snd (restart_tail X r rb cs)"]
      by (metis prod.collapse)
  qed
qed

text \<open>
  Claim C1. In every execution of \<open>cr_renderer_restart_interactive\<close>, whatever the other
  threads do and however the call ends, a structural mutation of the result buffer or of the
  tile set (the buffer destroyed or allocated anew, the tile array freed or replaced) comes
  in the call's trace only after the pause was requested and after, for every worker of the
  renderer, a read of that worker's \<open>in_pause_loop\<close> flag that found it set: the read is one
  of the call's reads of shared memory (a position of the observation list), and the flag
  is set in what the other threads showed at that read.
\<close>

theorem no_structural_mutation_before_acks:
  assumes "fst (cr_renderer_restart_interactive X env (Some r)) = pre @ ev # post"
    and "structural ev"
    and "length (workers (state r)) < 2 ^ 64"
  shows "Ev_toggle_pause \<in> set pre
       \<and> (\<forall>i<length (workers (state r)).
            \<exists>k<length env. Ev_observed_in_pause_loop i k \<in> set pre
                            \<and> obs_in_pause_loop (env ! k) i)"
proof -
  from restart_trace[OF assms(1)] assms(2)
  obtain r1 r2 rest where
    t: "toggle_pause_workers r1 = Inr r2"
    and w: "workers (state r1) = workers (state r)"
    and a: "snd (wait_for_acks (unat (arr_count (workers (state r2)))) 0 0 env) = Acked"
    and e: "pre @ ev # post = ([Ev_recompute_optics, Ev_toggle_pause]
                     @ fst (wait_for_acks (unat (arr_count (workers (state r2)))) 0 0 env)) @ rest"
    by auto
  let ?n = "unat (arr_count (workers (state r2)))"
  let ?tw = "fst (wait_for_acks ?n 0 0 env)"
  let ?xs = "[Ev_recompute_optics, Ev_toggle_pause] @ ?tw"
  have n: "?n = length (workers (state r))"
    using toggle_pause_workers_length[OF t] w assms(3) by (simp add: unat_arr_count)
  have "\<forall>x\<in>set ?xs. \<not> structural x"
    using wait_for_acks_not_structural[of _ ?n 0 0 env] by auto
  then have sub: "set ?xs \<subseteq> set pre"
    using structural_after_prefix[of ?xs rest pre ev post] e assms(2) by simp
  have "\<exists>k<length env. Ev_observed_in_pause_loop i k \<in> set pre \<and> obs_in_pause_loop (env ! k) i"
    if "i < length (workers (state r))" for i
  proof -
    from wait_for_acks_all_observed[OF a, of i] that n
    obtain p where p: "Ev_observed_in_pause_loop i p \<in> set ?tw"
      by auto
    from wait_for_acks_grounded[OF p]
    have "p < length env" "obs_in_pause_loop (env ! p) i"
      by simp_all
    moreover have "Ev_observed_in_pause_loop i p \<in> set pre"
      using p sub by auto
    ultimately show ?thesis
      by blast
  qed
  then show ?thesis
    using sub by auto
qed

lemma for_workers_two:
  "for_workers f 2 0 [w0, w1] = Inr [f w0, f w1]"
  by (simp add: for_workers.simps numeral_2_eq_2)

lemma sample_trace:
  "fst (cr_renderer_restart_interactive sample_externals sample_observations
          (Some resized_renderer))
   = [Ev_recompute_optics, Ev_toggle_pause, Ev_observed_in_pause_loop 0 0,
      Ev_observed_in_pause_loop 1 3]
     @ Ev_tex_destroy
     # [Ev_tex_new, Ev_tile_arr_free, Ev_tiles_assigned, Ev_finished_reset, Ev_toggle_pause,
        Ev_tex_clear, Ev_finished_reset, Ev_samples_reset, Ev_update_toplevel, Ev_pool_wait]"
  by (simp add: cr_renderer_restart_interactive_def resized_renderer_def sample_renderer_def
      arr_count_def in_bounds_def empty_scene_def default_camera_def sample_texture_def
      Let_def restart_resize_def toggle_pause_workers_def for_workers_two
      sample_externals_def acked_by_def restart_tail_def sample_observations_def
      wait_done wait_ack wait_again)

text \<open>
  With no observation at all the call gets as far as the pause request and spins there: the
  result buffer and the tile set are not touched.
\<close>

lemma sample_trace_unobserved:
  "cr_renderer_restart_interactive sample_externals [] (Some resized_renderer)
   = ([Ev_recompute_optics, Ev_toggle_pause], Spinning)"
  by (simp add: cr_renderer_restart_interactive_def resized_renderer_def sample_renderer_def
      arr_count_def in_bounds_def empty_scene_def default_camera_def sample_texture_def
      Let_def restart_resize_def toggle_pause_workers_def for_workers_two
      sample_externals_def wait_nil)

theorem no_structural_mutation_before_acks_witness:
  "fst (cr_renderer_restart_interactive sample_externals sample_observations
          (Some resized_renderer))
   = [Ev_recompute_optics, Ev_toggle_pause, Ev_observed_in_pause_loop 0 0,
      Ev_observed_in_pause_loop 1 3]
     @ Ev_tex_destroy
     # [Ev_tex_new, Ev_tile_arr_free, Ev_tiles_assigned, Ev_finished_reset, Ev_toggle_pause,
        Ev_tex_clear, Ev_finished_reset, Ev_samples_reset, Ev_update_toplevel, Ev_pool_wait]
   \<and> structural Ev_tex_destroy
   \<and> length (workers (state resized_renderer)) = 2
   \<and> Ev_toggle_pause \<in> set [Ev_recompute_optics, Ev_toggle_pause,
        Ev_observed_in_pause_loop 0 0, Ev_observed_in_pause_loop 1 3]
   \<and> (\<exists>k<length sample_observations.
        Ev_observed_in_pause_loop 0 k \<in> set [Ev_recompute_optics, Ev_toggle_pause,
          Ev_observed_in_pause_loop 0 0, Ev_observed_in_pause_loop 1 3]
        \<and> obs_in_pause_loop (sample_observations ! k) 0)
   \<and> (\<exists>k<length sample_observations.
        Ev_observed_in_pause_loop 1 k \<in> set [Ev_recompute_optics, Ev_toggle_pause,
          Ev_observed_in_pause_loop 0 0, Ev_observed_in_pause_loop 1 3]
        \<and> obs_in_pause_loop (sample_observations ! k) 1)"
proof -
  let ?pre = "[Ev_recompute_optics, Ev_toggle_pause,
        Ev_observed_in_pause_loop 0 0, Ev_observed_in_pause_loop 1 3]"
  have h1: "structural Ev_tex_destroy"
    by simp
  have h2: "length (workers (state resized_renderer)) < 2 ^ 64"
    by (simp add: resized_renderer_def sample_renderer_def)
  have l: "length (workers (state resized_renderer)) = 2"
    by (simp add: resized_renderer_def sample_renderer_def)
  from no_structural_mutation_before_acks[OF sample_trace h1 h2]
  have c: "Ev_toggle_pause \<in> set ?pre"
    and d: "\<forall>i<length (workers (state resized_renderer)).
        \<exists>k<length sample_observations.
          Ev_observed_in_pause_loop i k \<in> set ?pre
          \<and> obs_in_pause_loop (sample_observations ! k) i"
    by blast+
  have d0: "\<exists>k<length sample_observations.
          Ev_observed_in_pause_loop 0 k \<in> set ?pre
          \<and> obs_in_pause_loop (sample_observations ! k) 0"
    using d[rule_format, of 0] l by simp
  have d1: "\<exists>k<length sample_observations.
          Ev_observed_in_pause_loop 1 k \<in> set ?pre
          \<and> obs_in_pause_loop (sample_observations ! k) 1"
    using d[rule_format, of 1] l by simp
  show ?thesis
    using sample_trace h1 l c d0 d1 by blast
qed

section \<open>Restart at an unchanged resolution\<close>




lemma for_workers_three_of_two:
  "for_workers f 3 0 [w0, w1] = Inl OutOfBounds"
  by (rule for_workers_overrun) simp_all



section \<open>Pausing with more threads than workers\<close>

text \<open>
  Claim C9, at a failing input. A renderer has two workers; its thread preference is set to
  three, which \<open>cr_renderer_set_num_pref\<close> accepts. \<open>cr_renderer_toggle_pause\<close> then runs
  its loop to \<open>prefs.threads\<close>, not to \<open>workers.count\<close>, and flips a \<open>paused\<close> flag at
  index 2 of an array of two: the call leaves the worker array, where the claim has it touch
  the workers' flags only and a second call undo the first.
\<close>

theorem toggle_pause_overruns_workers:
  "cr_renderer_set_num_pref (Some sample_renderer) cr_renderer_threads 3
     = (True, Some (sample_renderer\<lparr>prefs := (prefs sample_renderer)\<lparr>threads := 3\<rparr>\<rparr>))
   \<and> length (workers (state sample_renderer)) = 2
   \<and> cr_renderer_toggle_pause
        (Some (sample_renderer\<lparr>prefs := (prefs sample_renderer)\<lparr>threads := 3\<rparr>\<rparr>))
     = Inl OutOfBounds"
  by (simp add: cr_renderer_set_num_pref_def cr_renderer_toggle_pause_def
      toggle_pause_workers_def sample_renderer_def for_workers_three_of_two)

section \<open>NULL handles\<close>

text \<open>
  Claim C10. Every operation of \<open>c-ray.c\<close> that takes a renderer or a scene handle, given
  \<open>NULL\<close>, returns its failure value (\<open>false\<close>, \<open>-1\<close>, \<open>0\<close>, \<open>0.0\<close>, \<open>NULL\<close>, the all-zero
  totals) or just returns: the result is the same whatever the other arguments, the
  collaborators and the other threads are, so nothing was read and no collaborator was
  called, and there is no object behind the handle afterwards as there was none before.
  \<open>cr_destroy_renderer\<close> is the exception: its \<open>ASSERT\<close> fails.
\<close>

theorem null_handle_is_noop:
  "cr_renderer_set_callback None t cb data = Inr (False, None)
   \<and> cr_renderer_set_num_pref None p num = (False, None)
   \<and> cr_renderer_set_str_pref X None p str = (False, None)
   \<and> cr_renderer_stop env None = Returned None
   \<and> cr_renderer_toggle_pause None = Inr None
   \<and> cr_renderer_get_str_pref None p = None
   \<and> cr_renderer_get_num_pref None p = 0
   \<and> cr_scene_set_background X None desc = (False, None)
   \<and> cr_renderer_scene_get None = (None, None)
   \<and> cr_get_scene_totals None = (0, 0, 0, 0)
   \<and> cr_scene_add_sphere None rad = (- 1, None)
   \<and> cr_mesh_bind_vertex_buf None m buf = Inr None
   \<and> cr_mesh_bind_faces None m fs n = Inr None
   \<and> cr_mesh_finalize None m = Inr None
   \<and> cr_scene_mesh_new X None nm = (- 1, None)
   \<and> cr_scene_get_mesh X None nm = - 1
   \<and> cr_instance_new X None obj ty = (- 1, None)
   \<and> cr_instance_set_transform X None i rm = Inr None
   \<and> cr_instance_transform X None i rm = Inr None
   \<and> cr_instance_bind_material_set None i ms = Inr (False, None)
   \<and> cr_destroy_renderer None = Inl AssertionFailed
   \<and> cr_camera_new None = (- 1, None)
   \<and> cr_camera_set_num_pref X None c cp d = Inr (False, None)
   \<and> cr_camera_get_num_pref X None c cp = Inr 0
   \<and> cr_camera_update X None c = Inr (False, None)
   \<and> cr_camera_remove None c = (False, None)
   \<and> cr_scene_new_material_set None = (- 1, None)
   \<and> cr_material_set_add X None ms desc = Inr (- 1, None)
   \<and> cr_material_update X None ms mat desc = Inr None
   \<and> cr_renderer_render X None = None
   \<and> cr_renderer_start_interactive X None = None
   \<and> cr_renderer_restart_interactive X env None = ([], Returned None)
   \<and> cr_renderer_get_result None = None
   \<and> cr_load_json X None path = (False, None)
   \<and> cr_debug_dump_state None = None"
  by (simp add: cr_renderer_set_callback_def cr_renderer_set_num_pref_def
      cr_renderer_set_str_pref_def cr_renderer_stop_def cr_renderer_toggle_pause_def
      cr_renderer_get_str_pref_def cr_renderer_get_num_pref_def cr_scene_set_background_def
      cr_renderer_scene_get_def cr_get_scene_totals_def cr_scene_add_sphere_def
      cr_mesh_bind_vertex_buf_def cr_mesh_bind_faces_def cr_mesh_finalize_def
      cr_scene_mesh_new_def cr_scene_get_mesh_def cr_instance_new_def
      cr_instance_set_transform_def cr_instance_transform_def
      cr_instance_bind_material_set_def cr_destroy_renderer_def cr_camera_new_def
      cr_camera_set_num_pref_def cr_camera_get_num_pref_def cr_camera_update_def
      cr_camera_remove_def cr_scene_new_material_set_def cr_material_set_add_def
      cr_material_update_def cr_renderer_render_def cr_renderer_start_interactive_def
      cr_renderer_restart_interactive_def cr_renderer_get_result_def cr_load_json_def
      cr_debug_dump_state_def)

theorem null_handle_is_noop_witness:
  "cr_renderer_set_callback None 0 (Some 1) None = Inr (False, None)
   \<and> cr_renderer_set_num_pref None cr_renderer_threads 4 = (False, None)
   \<and> cr_renderer_set_str_pref sample_externals None cr_renderer_threads (Some ''random'')
        = (False, None)
   \<and> cr_renderer_stop [] None = Returned None
   \<and> cr_renderer_toggle_pause None = Inr None
   \<and> cr_renderer_get_str_pref None cr_renderer_threads = None
   \<and> cr_renderer_get_num_pref None cr_renderer_threads = 0
   \<and> cr_scene_set_background sample_externals None None = (False, None)
   \<and> cr_renderer_scene_get None = (None, None)
   \<and> cr_get_scene_totals None = (0, 0, 0, 0)
   \<and> cr_scene_add_sphere None 0x3F800000 = (- 1, None)
   \<and> cr_mesh_bind_vertex_buf None 0
        \<lparr>cr_vertex_buf_param.vertices = None, vertex_count = 0,
         cr_vertex_buf_param.normals = None, normal_count = 0,
         tex_coords = None, tex_coord_count = 0\<rparr> = Inr None
   \<and> cr_mesh_bind_faces None 0 (Some [sample_face 0]) 1 = Inr None
   \<and> cr_mesh_finalize None 0 = Inr None
   \<and> cr_scene_mesh_new sample_externals None (Some ''cube'') = (- 1, None)
   \<and> cr_scene_get_mesh sample_externals None (Some ''cube'') = - 1
   \<and> cr_instance_new sample_externals None 0 cr_object_mesh = (- 1, None)
   \<and> cr_instance_set_transform sample_externals None 0 (const_matrix 0) = Inr None
   \<and> cr_instance_transform sample_externals None 0 (const_matrix 0) = Inr None
   \<and> cr_instance_bind_material_set None 0 0 = Inr (False, None)
   \<and> cr_destroy_renderer None = Inl AssertionFailed
   \<and> cr_camera_new None = (- 1, None)
   \<and> cr_camera_set_num_pref sample_externals None 0 cr_camera_fov 0 = Inr (False, None)
   \<and> cr_camera_get_num_pref sample_externals None 0 cr_camera_fov = Inr 0
   \<and> cr_camera_update sample_externals None 0 = Inr (False, None)
   \<and> cr_camera_remove None 0 = (False, None)
   \<and> cr_scene_new_material_set None = (- 1, None)
   \<and> cr_material_set_add sample_externals None 0 None = Inr (- 1, None)
   \<and> cr_material_update sample_externals None 0 0 None = Inr None
   \<and> cr_renderer_render sample_externals None = None
   \<and> cr_renderer_start_interactive sample_externals None = None
   \<and> cr_renderer_restart_interactive sample_externals [] None = ([], Returned None)
   \<and> cr_renderer_get_result None = None
   \<and> cr_load_json sample_externals None (Some ''scene.json'') = (False, None)
   \<and> cr_debug_dump_state None = None"
  by (rule null_handle_is_noop)

end
